theory Spec2Isabelle
  imports Complex_Main
begin

section \<open>Arithmetic of the model\<close>

text \<open>
  The program computes on floating-point numbers (NumPy arrays holding one basin, and
  Python floats for the parameters). The embedding computes on the reals: rounding is
  not modelled. The exceptions the program raises are error values. A step whose
  floating-point result is not a real number is an error value as well, although NumPy
  raises nothing there: \<open>ZeroDivisionError\<close> stands for a division by zero (infinite or
  nan in NumPy, the exception for Python floats), \<open>NotANumber\<close> for a power without a
  real value (nan in NumPy, a complex number for Python floats). \<open>np.where\<close> is an
  \<open>if\<close>: the branch it discards cannot make the result non-finite. Where the program
  goes on from a nan to finite results, the model follows it: see \<open>sources\<close>.
\<close>

datatype error =
    ZeroDivisionError
  | NotANumber
  | KeyError
  | ValueError
  | TypeError
  | NotImplementedError

definition bindE :: "error + 'a \<Rightarrow> ('a \<Rightarrow> error + 'b) \<Rightarrow> error + 'b" where
  "bindE m f = (case m of Inl e \<Rightarrow> Inl e | Inr x \<Rightarrow> f x)"

definition fdiv :: "real \<Rightarrow> real \<Rightarrow> error + real" where
  "fdiv x y = (if y = 0 then Inl ZeroDivisionError else Inr (x / y))"

text \<open>
  The operator \<open>**\<close> on floats. A positive base is \<open>powr\<close>; zero to a positive power
  is zero, to the power zero is one, and to a negative power is a division by zero; a
  negative base has a real power only for an integral exponent, and otherwise the
  value is \<open>NotANumber\<close>.
\<close>

definition py_pow :: "real \<Rightarrow> real \<Rightarrow> error + real" where
  "py_pow x y =
     (if 0 < x then Inr (x powr y)
      else if x = 0 then
        (if y = 0 then Inr 1 else if 0 < y then Inr 0 else Inl ZeroDivisionError)
      else if y = of_int \<lfloor>y\<rfloor> then Inr (x powi \<lfloor>y\<rfloor>)
      else Inl NotANumber)"

definition clip :: "real \<Rightarrow> real \<Rightarrow> real \<Rightarrow> real" where
  "clip x lo hi = min (max x lo) hi"

section \<open>Evapotranspiration and runoff generation\<close>

definition calculate_evap ::
  "real \<Rightarrow> real \<Rightarrow> real \<Rightarrow> real \<Rightarrow> real \<Rightarrow> real \<Rightarrow> error + (real \<times> real \<times> real)" where
  "calculate_evap lm c wu0 wl0 prcp pet =
     (let eu = (if wu0 + prcp \<ge> pet then pet else wu0 + prcp);
          ed = (if wl0 < c * lm \<and> wl0 < c * (pet - eu) then c * (pet - eu) - wl0 else 0)
      in bindE (if wu0 + prcp \<ge> pet then Inr 0
                else if wl0 \<ge> c * lm then fdiv ((pet - eu) * wl0) lm
                else if wl0 \<ge> c * (pet - eu) then Inr (c * (pet - eu))
                else Inr wl0)
           (\<lambda>el. Inr (eu, el, ed)))"

definition calculate_prcp_runoff ::
  "real \<Rightarrow> real \<Rightarrow> real \<Rightarrow> real \<Rightarrow> real \<Rightarrow> error + (real \<times> real)" where
  "calculate_prcp_runoff b im wm w0 pe =
     bindE (fdiv (wm * (1 + b)) (1 - im)) (\<lambda>wmm.
     bindE (fdiv w0 wm) (\<lambda>q.
     bindE (fdiv 1 (1 + b)) (\<lambda>k.
     bindE (py_pow (1 - q) k) (\<lambda>pw.
       let a = wmm * (1 - pw) in
       bindE (if pe + a < wmm
              then bindE (fdiv (a + pe) wmm) (\<lambda>t.
                   bindE (py_pow (1 - t) (1 + b)) (\<lambda>pw2.
                     Inr (pe - (wm - w0) + wm * pw2)))
              else Inr (pe - (wm - w0))) (\<lambda>r_cal.
         Inr (max r_cal 0, max (pe * im) 0))))))"

definition calculate_w_storage ::
  "real \<Rightarrow> real \<Rightarrow> real \<Rightarrow> real \<Rightarrow> real \<Rightarrow> real \<Rightarrow> real \<Rightarrow> real \<Rightarrow> real \<Rightarrow> real \<Rightarrow> real
     \<Rightarrow> real \<times> real \<times> real" where
  "calculate_w_storage um lm dm wu0 wl0 wd0 eu el ed p r =
     (let e = eu + el + ed;
          pe = max (p - e) 0;
          wu = (if pe > 0 then (if wu0 + pe - r < um then wu0 + pe - r else um)
                else wu0 - eu);
          wd = (if pe > 0
                then (if wu0 + wl0 + pe - r > um + lm
                      then wu0 + wl0 + wd0 + pe - r - um - lm else wd0)
                else wd0 - ed);
          wl = (if pe > 0 then wu0 + wl0 + wd0 + pe - r - wu - wd else wl0 - el)
      in (clip wu 0 um, clip wl 0 lm, clip wd 0 dm))"

text \<open>
  \<open>generation\<close> takes one timestep's \<open>(prcp, pet)\<close> of one basin; the three states are
  optional, \<open>None\<close> standing for Python's \<open>None\<close>.
\<close>

definition generation ::
  "real \<times> real \<Rightarrow> real \<Rightarrow> real \<Rightarrow> real \<Rightarrow> real \<Rightarrow> real \<Rightarrow> real
     \<Rightarrow> real option \<Rightarrow> real option \<Rightarrow> real option
     \<Rightarrow> error + ((real \<times> real \<times> real \<times> real) \<times> (real \<times> real \<times> real))" where
  "generation p_and_e um lm dm c b im wu0' wl0' wd0' =
     (let prcp = max (fst p_and_e) 0;
          pet = max (snd p_and_e) 0;
          wm = um + lm + dm;
          wu0 = (case wu0' of None \<Rightarrow> 0.6 * um | Some v \<Rightarrow> v);
          wl0 = (case wl0' of None \<Rightarrow> 0.6 * lm | Some v \<Rightarrow> v);
          wd0 = (case wd0' of None \<Rightarrow> 0.6 * dm | Some v \<Rightarrow> v);
          w0s = wu0 + wl0 + wd0;
          w0 = (if w0s > wm then wm else w0s)
      in bindE (calculate_evap lm c wu0 wl0 prcp pet) (\<lambda>(eu, el, ed).
           let e = eu + el + ed;
               prcp_difference = prcp - e;
               pe = max prcp_difference 0
           in bindE (calculate_prcp_runoff b im wm w0 pe) (\<lambda>(r, rim).
                let (wu, wl, wd) = calculate_w_storage um lm dm wu0 wl0 wd0 eu el ed pe r
                in Inr ((r, rim, e, pe), (wu, wl, wd)))))"

section \<open>Source partitioning, standard\<close>

text \<open>
  \<open>fr0 * s0 / fr\<close> is written three times in the source; it is computed once here, at
  its first occurrence. When the power in \<open>au\<close> has no real value, \<open>au\<close> is nan in the
  program, the comparison \<open>pe + au < ms\<close> is false and \<open>np.where\<close> takes equation 2.86,
  whose value is finite.
\<close>

definition sources ::
  "real \<Rightarrow> real \<Rightarrow> real \<Rightarrow> real \<Rightarrow> real \<Rightarrow> real \<Rightarrow> real option \<Rightarrow> real option
     \<Rightarrow> error + ((real \<times> real \<times> real) \<times> (real \<times> real))" where
  "sources pe r sm ex ki kg s0' fr0' =
     (let ms = sm * (1 + ex);
          s0 = (case s0' of None \<Rightarrow> 0.60 * sm | Some v \<Rightarrow> v);
          fr0 = (case fr0' of None \<Rightarrow> 0.02 | Some v \<Rightarrow> v)
      in bindE (if pe < 1 / 100000 then Inr fr0 else fdiv r pe) (\<lambda>fr.
         bindE (fdiv (fr0 * s0) fr) (\<lambda>sp.
         bindE (fdiv sp sm) (\<lambda>q.
         bindE (fdiv 1 (1 + ex)) (\<lambda>k.
         bindE (case py_pow (1 - q) k of
                  Inr pw \<Rightarrow>
                    (let au = ms * (1 - pw) in
                     if pe + au < ms
                     then bindE (fdiv (pe + au) ms) (\<lambda>t.
                          bindE (py_pow (1 - t) (ex + 1)) (\<lambda>pw2.
                            Inr (fr * (pe + sp - sm + sm * pw2))))
                     else Inr (fr * (pe + sp - sm)))
                | Inl e \<Rightarrow>
                    (if e = NotANumber then Inr (fr * (pe + sp - sm)) else Inl e)) (\<lambda>rs.
         bindE (fdiv (r - rs) fr) (\<lambda>d.
           let s = sp + d;
               ri = ki * s * fr;
               rg = kg * s * fr;
               s1 = s * (1 - ki - kg)
           in Inr ((max rs 0, max ri 0, max rg 0), (fr, s1)))))))))"

section \<open>Source partitioning, sub-stepped\<close>

text \<open>\<open>int(x)\<close> on a float truncates towards zero.\<close>

definition py_int :: "real \<Rightarrow> int" where
  "py_int x = (if 0 \<le> x then \<lfloor>x\<rfloor> else \<lceil>x\<rceil>)"

text \<open>Lines 234 to 239: the number of periods in a day.\<close>

definition period_num_1d :: "int \<Rightarrow> error + int" where
  "period_num_1d time_interval_hours =
     (if time_interval_hours = 0 then Inl ZeroDivisionError
      else Inr (py_int (24 / of_int time_interval_hours)
                + (if 24 mod time_interval_hours \<noteq> 0 then 1 else 0)))"

text \<open>
  Lines 242 and 243, and again lines 265 and 266 with the period's coefficients and the
  number of slices: a pair of coefficients \<open>(kss, kg)\<close> is split over \<open>m\<close> parts.
\<close>

definition split_coefficients :: "real \<Rightarrow> real \<Rightarrow> real \<Rightarrow> error + (real \<times> real)" where
  "split_coefficients kss kg m =
     bindE (fdiv 1 m) (\<lambda>k.
     bindE (py_pow (1 - (kss + kg)) k) (\<lambda>pw.
     bindE (fdiv kg kss) (\<lambda>ratio.
     bindE (fdiv (1 - pw) (1 + ratio)) (\<lambda>kss_m.
     bindE (fdiv (kss_m * kg) kss) (\<lambda>kg_m.
       Inr (kss_m, kg_m))))))"

text \<open>
  Lines 255 to 261: the number of slices. For a runoff of at least 5 that is an exact
  multiple of 5, \<open>residue_temp\<close> stays the float \<open>runoff % 5\<close>, so \<open>n\<close> is a float and
  \<open>range(n)\<close> raises \<open>TypeError\<close>; \<open>slice_count_integral\<close> tells whether \<open>n\<close> is an
  integer.
\<close>

definition slice_count :: "real \<Rightarrow> nat" where
  "slice_count runoff =
     (if runoff < 5 then 1
      else nat (py_int (runoff / 5)
                + (if runoff - 5 * of_int \<lfloor>runoff / 5\<rfloor> \<noteq> 0 then 1 else 0)))"

definition slice_count_integral :: "real \<Rightarrow> bool" where
  "slice_count_integral runoff \<longleftrightarrow>
     runoff < 5 \<or> runoff - 5 * of_int \<lfloor>runoff / 5\<rfloor> \<noteq> 0"

text \<open>
  Lines 277 to 319: one slice. The state is the running totals \<open>rs\<close>, \<open>rss\<close>, \<open>rg\<close> and
  the last elements of the lists \<open>fr_ds\<close> and \<open>s_ds\<close>.
\<close>

definition slice_step ::
  "string \<Rightarrow> real \<Rightarrow> real \<Rightarrow> real \<Rightarrow> real \<Rightarrow> real \<Rightarrow> real \<Rightarrow> real \<Rightarrow> real \<Rightarrow> real
     \<Rightarrow> (real \<times> real \<times> real) \<times> (real \<times> real)
     \<Rightarrow> error + ((real \<times> real \<times> real) \<times> (real \<times> real))" where
  "slice_step book sm ex smm fr n rn pen kss_d kg_d st =
     (case st of ((rs, rss, rg), (fr0_d, s0_d)) \<Rightarrow>
      bindE (fdiv 1 n) (\<lambda>k.
      bindE (py_pow (1 - fr) k) (\<lambda>pw.
        let fr_d = 1 - pw in
        bindE (fdiv (fr0_d * s0_d) fr_d) (\<lambda>s_d.
        bindE
          (if book = ''ShuiWenYuBao'' then
             (let ms = smm;
                  s_d = (if s_d > sm then sm else s_d)
              in bindE (fdiv s_d sm) (\<lambda>q.
                 bindE (fdiv 1 (1 + ex)) (\<lambda>k1.
                 bindE (py_pow (1 - q) k1) (\<lambda>pw1.
                   let au = ms * (1 - pw1) in
                   bindE (if pen + au \<ge> ms then Inr ((pen + s_d - sm) * fr_d)
                          else bindE (fdiv (pen + au) ms) (\<lambda>t.
                               bindE (py_pow (1 - t) (ex + 1)) (\<lambda>pw2.
                                 Inr ((pen - sm + s_d + sm * pw2) * fr_d)))) (\<lambda>rs_j.
                   bindE (fdiv (rn - rs_j) fr_d) (\<lambda>d.
                     let s_d = s_d + d;
                         rss_j = s_d * kss_d * fr_d;
                         rg_j = s_d * kg_d * fr_d;
                         s_d = s_d * (1 - rss_j + rg_j)
                     in Inr (rs_j, rss_j, rg_j, s_d)))))))
           else
             bindE (fdiv 1 ex) (\<lambda>k0.
             bindE (py_pow (1 - fr_d) k0) (\<lambda>pw0.
               let smmf = smm * (1 - pw0) in
               bindE (fdiv smmf (1 + ex)) (\<lambda>smf.
                 let s_d = (if s_d > smf then smf else s_d) in
                 bindE (fdiv s_d smf) (\<lambda>q.
                 bindE (fdiv 1 (1 + ex)) (\<lambda>k1.
                 bindE (py_pow (1 - q) k1) (\<lambda>pw1.
                   let au = smmf * (1 - pw1) in
                   if pen + au \<ge> smmf then
                     (let rs_j = (pen + s_d - smf) * fr_d;
                          rss_j = smf * kss_d * fr_d;
                          rg_j = smf * kg_d * fr_d
                      in bindE (fdiv (rss_j + rg_j) fr_d) (\<lambda>d.
                           Inr (rs_j, rss_j, rg_j, smf - d)))
                   else
                     bindE (fdiv (pen + au) smmf) (\<lambda>t.
                     bindE (py_pow (1 - t) (ex + 1)) (\<lambda>pw2.
                       let rs_j = (pen - smf + s_d + smf * pw2) * fr_d in
                       bindE (fdiv rs_j fr_d) (\<lambda>d1.
                         let rss_j = (pen - d1 + s_d) * kss_d * fr_d in
                         bindE (fdiv rs_j fr_d) (\<lambda>d2.
                           let rg_j = (pen - d2 + s_d) * kg_d * fr_d in
                           bindE (fdiv (rs_j + rss_j + rg_j) fr_d) (\<lambda>d3.
                             Inr (rs_j, rss_j, rg_j, s_d + pen - d3)))))))))))))
          (\<lambda>(rs_j, rss_j, rg_j, s_d).
             Inr ((rs + rs_j, rss + rss_j, rg + rg_j), (fr_d, s_d)))))))"

text \<open>Line 275: the loop \<open>for j in range(n)\<close>, counting the slices still to run.\<close>

fun slice_loop ::
  "nat \<Rightarrow> ((real \<times> real \<times> real) \<times> (real \<times> real)
            \<Rightarrow> error + ((real \<times> real \<times> real) \<times> (real \<times> real)))
     \<Rightarrow> (real \<times> real \<times> real) \<times> (real \<times> real)
     \<Rightarrow> error + ((real \<times> real \<times> real) \<times> (real \<times> real))" where
  "slice_loop 0 body st = Inr st"
| "slice_loop (Suc j) body st = bindE (body st) (slice_loop j body)"

definition sources5mm ::
  "real \<Rightarrow> real \<Rightarrow> real \<Rightarrow> real \<Rightarrow> real \<Rightarrow> real \<Rightarrow> real option \<Rightarrow> real option \<Rightarrow> int \<Rightarrow> string
     \<Rightarrow> error + ((real \<times> real \<times> real) \<times> (real \<times> real))" where
  "sources5mm pe runoff sm ex ki kg s0' fr0' time_interval_hours book =
     bindE (period_num_1d time_interval_hours) (\<lambda>periods.
     bindE (split_coefficients ki kg (of_int periods)) (\<lambda>(kss_period, kg_period).
       let smm = sm * (1 + ex);
           s0 = (case s0' of None \<Rightarrow> 0.60 * sm | Some v \<Rightarrow> v);
           fr0 = (case fr0' of None \<Rightarrow> 0.02 | Some v \<Rightarrow> v)
       in bindE (if pe > 1 / 100000 then fdiv runoff pe else Inr fr0) (\<lambda>fr.
            let fr = clip fr 0.001 1;
                n = slice_count runoff;
                rn = runoff / of_nat n;
                pen = pe / of_nat n
            in bindE (split_coefficients kss_period kg_period (of_nat n)) (\<lambda>(kss_d, kg_d).
                 if slice_count_integral runoff
                 then slice_loop n
                        (slice_step book sm ex smm fr (of_nat n) rn pen kss_d kg_d)
                        ((0, 0, 0), (fr0, s0))
                 else Inl TypeError))))"

section \<open>The simulation driver\<close>

text \<open>
  The parameter dictionary is a record; \<open>CS\<close> is read only when no unit hydrograph is
  given, so it alone may be absent. The state dictionary is a map from the key to the
  value stored there, which may itself be \<open>None\<close>. One basin is simulated: the forcing is
  the list of its \<open>(prcp, pet)\<close> pairs.
\<close>

record params =
  par_B :: real
  par_IM :: real
  par_UM :: real
  par_LM :: real
  par_DM :: real
  par_C :: real
  par_SM :: real
  par_EX :: real
  par_KI :: real
  par_KG :: real
  par_CI :: real
  par_CG :: real
  par_CS :: "real option"

datatype uh_arg = UhOrdinates "real list" | UhShape real

datatype route_method = LinearReservoir real | UnitHydrograph "real list"

type_synonym states = "string \<Rightarrow> real option option"

definition get_state :: "states \<Rightarrow> string \<Rightarrow> error + real option" where
  "get_state m k = (case m k of None \<Rightarrow> Inl KeyError | Some v \<Rightarrow> Inr v)"

text \<open>Lines 372 to 389.\<close>

definition read_states ::
  "states option \<Rightarrow>
     error + ((real option \<times> real option \<times> real option) \<times> (real option \<times> real option)
              \<times> (real option \<times> real option \<times> real option))" where
  "read_states states =
     (case states of
        None \<Rightarrow> Inr ((None, None, None), (None, None), (None, None, None))
      | Some m \<Rightarrow>
          bindE (get_state m ''WU0'') (\<lambda>wu0.
          bindE (get_state m ''WL0'') (\<lambda>wl0.
          bindE (get_state m ''WD0'') (\<lambda>wd0.
          bindE (get_state m ''S0'') (\<lambda>s0.
          bindE (get_state m ''FR0'') (\<lambda>fr0.
          bindE (get_state m ''QS0'') (\<lambda>qs0.
          bindE (get_state m ''QI0'') (\<lambda>qi0.
          bindE (get_state m ''QG0'') (\<lambda>qg0.
            Inr ((wu0, wl0, wd0), (s0, fr0), (qs0, qi0, qg0)))))))))))"

text \<open>
  Lines 342 to 369. The S-curve \<open>s_curves2\<close> comes from another module of the
  repository and is a parameter here.
\<close>

definition read_route ::
  "(int \<Rightarrow> real \<Rightarrow> real) \<Rightarrow> params \<Rightarrow> uh_arg option \<Rightarrow> error + route_method" where
  "read_route s_curves2 params uh =
     (case uh of
        None \<Rightarrow> (case par_CS params of
                   None \<Rightarrow> Inl KeyError
                 | Some cs \<Rightarrow> Inr (LinearReservoir cs))
      | Some (UhOrdinates us) \<Rightarrow> Inr (UnitHydrograph us)
      | Some (UhShape x) \<Rightarrow>
          Inr (UnitHydrograph
                 (map (\<lambda>t. s_curves2 (int t) x - s_curves2 (int t - 1) x)
                    [1..<Suc (nat \<lceil>2 * x\<rceil>)])))"

text \<open>The choice of the partitioner, lines 400 to 410 and 415 to 425.\<close>

definition divide_sources ::
  "string \<Rightarrow> string \<Rightarrow> real \<Rightarrow> real \<Rightarrow> real \<Rightarrow> real \<Rightarrow> real \<Rightarrow> real
     \<Rightarrow> real option \<Rightarrow> real option
     \<Rightarrow> error + ((real \<times> real \<times> real) \<times> (real \<times> real))" where
  "divide_sources source_type source_book pe r sm ex ki kg a7 a8 =
     (if source_type = ''sources'' then sources pe r sm ex ki kg a7 a8
      else if source_type = ''sources5mm'' then sources5mm pe r sm ex ki kg a7 a8 24 source_book
      else Inl NotImplementedError)"

text \<open>
  Lines 395 to 429: the loop over the timesteps. \<open>w\<close> holds the three arguments passed
  to \<open>generation\<close> as states and \<open>S\<close> the seventh and eighth positional arguments passed
  to the partitioner. At the first timestep they are the initial states \<open>(s0, fr0)\<close>;
  afterwards the source passes \<open>*S\<close>, the pair \<open>(fr, s1)\<close> the partitioner returned, in
  that order. The result is the list of \<open>(rim, rs, ri, rg)\<close> and the last \<open>w\<close> and \<open>S\<close>.
\<close>

fun xaj_steps ::
  "params \<Rightarrow> string \<Rightarrow> string \<Rightarrow> (real \<times> real) list
     \<Rightarrow> real option \<times> real option \<times> real option \<Rightarrow> real option \<times> real option
     \<Rightarrow> error + ((real \<times> real \<times> real \<times> real) list
                 \<times> (real option \<times> real option \<times> real option)
                 \<times> (real option \<times> real option))" where
  "xaj_steps params source_type source_book [] w S = Inr ([], w, S)"
| "xaj_steps params source_type source_book (x # xs) w S =
     (case w of (wu0, wl0, wd0) \<Rightarrow> case S of (a7, a8) \<Rightarrow>
      bindE (generation x (par_UM params) (par_LM params) (par_DM params)
               (par_C params) (par_B params) (par_IM params) wu0 wl0 wd0)
        (\<lambda>((r, rim, e, pe), (wu, wl, wd)).
      bindE (divide_sources source_type source_book pe r
               (par_SM params) (par_EX params) (par_KI params) (par_KG params) a7 a8)
        (\<lambda>((rs, ri, rg), (fr, s1)).
      bindE (xaj_steps params source_type source_book xs
               (Some wu, Some wl, Some wd) (Some fr, Some s1))
        (\<lambda>(outs, w', S'). Inr ((rim, rs, ri, rg) # outs, w', S')))))"

text \<open>The recurrence \<open>q = inflow * (1 - k) + q * k\<close> of lines 441 to 461.\<close>

fun linear_reservoir :: "real \<Rightarrow> real \<Rightarrow> real list \<Rightarrow> real list" where
  "linear_reservoir k q [] = []"
| "linear_reservoir k q (x # xs) =
     (let q' = x * (1 - k) + q * k in q' # linear_reservoir k q' xs)"

text \<open>Element \<open>i\<close> of the full convolution of \<open>xs\<close> with the kernel \<open>us\<close>.\<close>

definition convolve_at :: "real list \<Rightarrow> real list \<Rightarrow> nat \<Rightarrow> real" where
  "convolve_at xs us i = (\<Sum>k\<leftarrow>[0..<min (Suc i) (length us)]. xs ! (i - k) * us ! k)"

text \<open>
  \<open>np.stack\<close> raises \<open>ValueError\<close> on the empty list, so a forcing without timesteps
  fails after the first loop. An empty kernel leaves no element \<open>i\<close> of the convolution
  to read; that failure is an error value as well.
\<close>

definition xaj ::
  "(int \<Rightarrow> real \<Rightarrow> real) \<Rightarrow> (real \<times> real) list \<Rightarrow> params \<Rightarrow> states option
     \<Rightarrow> uh_arg option \<Rightarrow> string \<Rightarrow> string \<Rightarrow> error + real list" where
  "xaj s_curves2 p_and_e params states uh source_type source_book =
     bindE (read_route s_curves2 params uh) (\<lambda>route.
     bindE (read_states states) (\<lambda>(w0, S0, (qs0, qi0, qg0)).
     bindE (xaj_steps params source_type source_book p_and_e w0 S0) (\<lambda>(outs, w, S).
       if outs = [] then Inl ValueError
       else
         let runoff_im = map (\<lambda>(rim, rs, ri, rg). rim) outs;
             rss = map (\<lambda>(rim, rs, ri, rg). rs) outs;
             ris = map (\<lambda>(rim, rs, ri, rg). ri) outs;
             rgs = map (\<lambda>(rim, rs, ri, rg). rg) outs;
             rss_route = map (\<lambda>(x, y). x + y) (zip runoff_im rss)
         in bindE (case route of
                     LinearReservoir cs \<Rightarrow>
                       Inr (linear_reservoir cs (case qs0 of None \<Rightarrow> 0.01 | Some v \<Rightarrow> v)
                              rss_route)
                   | UnitHydrograph us \<Rightarrow>
                       if us = [] then Inl ValueError
                       else Inr (map (convolve_at rss_route us) [0..<length rss_route]))
              (\<lambda>qs.
                let qi = linear_reservoir (par_CI params)
                           (case qi0 of None \<Rightarrow> 0.01 | Some v \<Rightarrow> v) ris;
                    qg = linear_reservoir (par_CG params)
                           (case qg0 of None \<Rightarrow> 0.01 | Some v \<Rightarrow> v) rgs
                in Inr (map (\<lambda>(a, b, c). a + b + c) (zip qs (zip qi qg)))))))"

section \<open>The closed-form slice updates\<close>

text \<open>
  The two book formulations of one slice (lines 282 to 312), written out in real
  arithmetic: what one application of the slice update to a net rainfall \<open>pe\<close> and a
  runoff \<open>r\<close> gives at the area fraction \<open>fr\<close>, from the state \<open>(fr0, s0)\<close> and with the
  coefficients \<open>kss\<close> and \<open>kg\<close>: the runoff components \<open>(rs, rss, rg)\<close> and the new state
  \<open>(fr, s)\<close>.
\<close>

definition closed_form_ShuiWenYuBao ::
  "real \<Rightarrow> real \<Rightarrow> real \<Rightarrow> real \<Rightarrow> real \<Rightarrow> real \<Rightarrow> real \<Rightarrow> real \<Rightarrow> real
     \<Rightarrow> (real \<times> real \<times> real) \<times> (real \<times> real)" where
  "closed_form_ShuiWenYuBao sm ex kss kg fr pe r fr0 s0 =
     (let ms = sm * (1 + ex);
          s_d = (if fr0 * s0 / fr > sm then sm else fr0 * s0 / fr);
          au = ms * (1 - (1 - s_d / sm) powr (1 / (1 + ex)));
          rs = (if pe + au \<ge> ms then (pe + s_d - sm) * fr
                else (pe - sm + s_d + sm * (1 - (pe + au) / ms) powr (ex + 1)) * fr);
          s = s_d + (r - rs) / fr;
          rss = s * kss * fr;
          rg = s * kg * fr
      in ((rs, rss, rg), (fr, s * (1 - rss + rg))))"

definition closed_form_GongChengShuiWenXue ::
  "real \<Rightarrow> real \<Rightarrow> real \<Rightarrow> real \<Rightarrow> real \<Rightarrow> real \<Rightarrow> real \<Rightarrow> real \<Rightarrow> real
     \<Rightarrow> (real \<times> real \<times> real) \<times> (real \<times> real)" where
  "closed_form_GongChengShuiWenXue sm ex kss kg fr pe r fr0 s0 =
     (let smmf = sm * (1 + ex) * (1 - (1 - fr) powr (1 / ex));
          smf = smmf / (1 + ex);
          s_d = (if fr0 * s0 / fr > smf then smf else fr0 * s0 / fr);
          au = smmf * (1 - (1 - s_d / smf) powr (1 / (1 + ex)))
      in if pe + au \<ge> smmf then
           (let rs = (pe + s_d - smf) * fr;
                rss = smf * kss * fr;
                rg = smf * kg * fr
            in ((rs, rss, rg), (fr, smf - (rss + rg) / fr)))
         else
           (let rs = (pe - smf + s_d + smf * (1 - (pe + au) / smmf) powr (ex + 1)) * fr;
                rss = (pe - rs / fr + s_d) * kss * fr;
                rg = (pe - rs / fr + s_d) * kg * fr
            in ((rs, rss, rg), (fr, s_d + pe - (rs + rss + rg) / fr))))"

definition closed_form_step ::
  "string \<Rightarrow> real \<Rightarrow> real \<Rightarrow> real \<Rightarrow> real \<Rightarrow> real \<Rightarrow> real \<Rightarrow> real \<Rightarrow> real \<Rightarrow> real
     \<Rightarrow> (real \<times> real \<times> real) \<times> (real \<times> real)" where
  "closed_form_step book sm ex kss kg fr pe r fr0 s0 =
     (if book = ''ShuiWenYuBao'' then closed_form_ShuiWenYuBao sm ex kss kg fr pe r fr0 s0
      else closed_form_GongChengShuiWenXue sm ex kss kg fr pe r fr0 s0)"

section \<open>The soil-moisture states of a run\<close>



section \<open>Ranges, defaults and example inputs\<close>

text \<open>The ranges the specification gives for the generation parameters and states.\<close>

definition valid_gen_params :: "real \<Rightarrow> real \<Rightarrow> real \<Rightarrow> real \<Rightarrow> real \<Rightarrow> real \<Rightarrow> bool" where
  "valid_gen_params um lm dm c b im \<longleftrightarrow>
     0 < um \<and> 0 < lm \<and> 0 < dm \<and> 0 \<le> c \<and> c \<le> 1 \<and> 0 < b \<and> 0 \<le> im \<and> im < 1"

definition in_range_state :: "real \<Rightarrow> real \<Rightarrow> real \<Rightarrow> real \<Rightarrow> real \<Rightarrow> real \<Rightarrow> bool" where
  "in_range_state um lm dm wu0 wl0 wd0 \<longleftrightarrow>
     0 \<le> wu0 \<and> wu0 \<le> um \<and> 0 \<le> wl0 \<and> wl0 \<le> lm \<and> 0 \<le> wd0 \<and> wd0 \<le> dm"

text \<open>The keys of the state dictionary.\<close>

definition state_keys :: "string list" where
  "state_keys = [''WU0'', ''WL0'', ''WD0'', ''S0'', ''FR0'', ''QS0'', ''QI0'', ''QG0'']"

text \<open>
  The documented defaults of the initial states, as the specification lists them, and
  the state dictionary in which every key that holds \<open>None\<close> holds its default.
\<close>

definition default_state :: "params \<Rightarrow> string \<Rightarrow> real" where
  "default_state params k =
     (if k = ''WU0'' then 0.6 * par_UM params
      else if k = ''WL0'' then 0.6 * par_LM params
      else if k = ''WD0'' then 0.6 * par_DM params
      else if k = ''S0'' then 0.6 * par_SM params
      else if k = ''FR0'' then 0.02
      else 0.01)"

definition fill_defaults :: "params \<Rightarrow> states \<Rightarrow> states" where
  "fill_defaults params m k =
     (case m k of Some None \<Rightarrow> Some (Some (default_state params k)) | v \<Rightarrow> v)"

text \<open>The value a state argument stands for: the stored value, or the default for \<open>None\<close>.\<close>

definition norm_state :: "params \<Rightarrow> string \<Rightarrow> real option \<Rightarrow> real option" where
  "norm_state P k v = Some (case v of None \<Rightarrow> default_state P k | Some x \<Rightarrow> x)"

text \<open>
  Lines 431 to 465 of the driver, the routing of the collected runoff components, with
  the three initial flows already resolved to numbers.
\<close>

definition route_all ::
  "params \<Rightarrow> route_method \<Rightarrow> real \<Rightarrow> real \<Rightarrow> real
     \<Rightarrow> (real \<times> real \<times> real \<times> real) list \<Rightarrow> error + real list" where
  "route_all P route q1 q2 q3 outs =
     (if outs = [] then Inl ValueError
       else
         let runoff_im = map (\<lambda>(rim, rs, ri, rg). rim) outs;
             rss = map (\<lambda>(rim, rs, ri, rg). rs) outs;
             ris = map (\<lambda>(rim, rs, ri, rg). ri) outs;
             rgs = map (\<lambda>(rim, rs, ri, rg). rg) outs;
             rss_route = map (\<lambda>(x, y). x + y) (zip runoff_im rss)
         in bindE (case route of
                     LinearReservoir cs \<Rightarrow> Inr (linear_reservoir cs q1 rss_route)
                   | UnitHydrograph us \<Rightarrow>
                       if us = [] then Inl ValueError
                       else Inr (map (convolve_at rss_route us) [0..<length rss_route]))
              (\<lambda>qs.
                let qi = linear_reservoir (par_CI P) q2 ris;
                    qg = linear_reservoir (par_CG P) q3 rgs
                in Inr (map (\<lambda>(a, b, c). a + b + c) (zip qs (zip qi qg)))))"

text \<open>Concrete inputs at which the theorems below are evaluated.\<close>

definition example_params :: params where
  "example_params =
     \<lparr>par_B = 1, par_IM = 0, par_UM = 2, par_LM = 2, par_DM = 2, par_C = 1/2,
      par_SM = 10, par_EX = 1, par_KI = 1/2, par_KG = 1/10, par_CI = 1/2, par_CG = 1/2,
      par_CS = Some (1/2)\<rparr>"

definition states_without_WU0 :: states where
  "states_without_WU0 =
     [''WL0'' \<mapsto> Some 2, ''WD0'' \<mapsto> Some 2, ''S0'' \<mapsto> Some 10,
      ''FR0'' \<mapsto> Some 1, ''QS0'' \<mapsto> Some 1, ''QI0'' \<mapsto> Some 1, ''QG0'' \<mapsto> Some 1]"


section \<open>Properties of the runoff computation\<close>

lemma bindE_Inr [simp]: "bindE (Inr x) f = f x"
  by (simp add: bindE_def)

lemma bindE_Inl [simp]: "bindE (Inl e) f = Inl e"
  by (simp add: bindE_def)

lemma fdiv_nz [simp]: "y \<noteq> 0 \<Longrightarrow> fdiv x y = Inr (x / y)"
  by (simp add: fdiv_def)

lemma fdiv_zero [simp]: "fdiv x 0 = Inl ZeroDivisionError"
  by (simp add: fdiv_def)

lemma py_pow_nonneg: "0 \<le> x \<Longrightarrow> 0 < y \<Longrightarrow> py_pow x y = Inr (x powr y)"
  by (simp add: py_pow_def)

lemma py_pow_pos: "0 < x \<Longrightarrow> py_pow x y = Inr (x powr y)"
  by (simp add: py_pow_def)

lemma runoff_explicit:
  fixes b im wm w0 pe :: real
  defines "wmm \<equiv> wm * (1 + b) / (1 - im)"
  defines "a \<equiv> wmm * (1 - (1 - w0 / wm) powr (1 / (1 + b)))"
  assumes "0 < b" "0 \<le> im" "im < 1" "0 < wm" "w0 \<le> wm"
  shows "calculate_prcp_runoff b im wm w0 pe =
     Inr (max (if pe + a < wmm
               then pe - (wm - w0) + wm * (1 - (a + pe) / wmm) powr (1 + b)
               else pe - (wm - w0)) 0, max (pe * im) 0)"
proof -
  have wmm: "0 < wmm" using assms by simp
  have q: "0 \<le> 1 - w0 / wm" using assms by simp
  have p1: "py_pow (1 - w0 / wm) (1 / (1 + b)) = Inr ((1 - w0 / wm) powr (1 / (1 + b)))"
    using q assms by (intro py_pow_nonneg) auto
  have p2: "py_pow (1 - (a + pe) / wmm) (1 + b) = Inr ((1 - (a + pe) / wmm) powr (1 + b))"
    if "pe + a < wmm"
  proof -
    have "(a + pe) / wmm < 1" using that wmm by (simp add: add.commute)
    then show ?thesis by (intro py_pow_pos) simp
  qed
  have nz: "1 - im \<noteq> 0" "wm \<noteq> 0" "1 + b \<noteq> 0" "wmm \<noteq> 0" using assms wmm by auto
  have "calculate_prcp_runoff b im wm w0 pe =
     bindE (if pe + a < wmm
              then bindE (fdiv (a + pe) wmm) (\<lambda>t.
                   bindE (py_pow (1 - t) (1 + b)) (\<lambda>pw2.
                     Inr (pe - (wm - w0) + wm * pw2)))
              else Inr (pe - (wm - w0))) (\<lambda>r_cal.
         Inr (max r_cal 0, max (pe * im) 0))"
    unfolding calculate_prcp_runoff_def using nz(1-3) p1
    by (simp add: Let_def wmm_def a_def)
  also have "\<dots> = Inr (max (if pe + a < wmm
               then pe - (wm - w0) + wm * (1 - (a + pe) / wmm) powr (1 + b)
               else pe - (wm - w0)) 0, max (pe * im) 0)"
    using nz(4) p2 by simp
  finally show ?thesis .
qed

lemma runoff_bounds:
  assumes "0 < b" "0 \<le> im" "im < 1" "0 < wm" "w0 \<le> wm" "0 \<le> pe"
    and "calculate_prcp_runoff b im wm w0 pe = Inr (r, rim)"
  shows "0 \<le> r" "r \<le> pe" "pe - (wm - w0) \<le> r" "rim = pe * im"
proof -
  define wmm where "wmm = wm * (1 + b) / (1 - im)"
  define a where "a = wmm * (1 - (1 - w0 / wm) powr (1 / (1 + b)))"
  define rc where "rc = (if pe + a < wmm
               then pe - (wm - w0) + wm * (1 - (a + pe) / wmm) powr (1 + b)
               else pe - (wm - w0))"
  have eq: "r = max rc 0" "rim = max (pe * im) 0"
    using runoff_explicit[OF assms(1-5), of pe] assms(7)
    by (simp_all add: wmm_def a_def rc_def)
  have wmm: "0 < wmm" using assms by (simp add: wmm_def)
  have q: "0 \<le> 1 - w0 / wm" using assms by simp
  show "0 \<le> r" using eq by simp
  show "rim = pe * im" using eq assms by simp
  have lo: "pe - (wm - w0) \<le> rc" using assms by (simp add: rc_def)
  show "pe - (wm - w0) \<le> r" using lo eq by simp
  have "rc \<le> pe"
  proof (cases "pe + a < wmm")
    case True
    have t: "1 - (a + pe) / wmm = (1 - w0 / wm) powr (1 / (1 + b)) - pe / wmm"
      using wmm by (simp add: a_def field_simps)
    have pos: "0 \<le> 1 - (a + pe) / wmm" using True wmm by (simp add: add.commute)
    have le: "1 - (a + pe) / wmm \<le> (1 - w0 / wm) powr (1 / (1 + b))"
      using t assms wmm by simp
    have "(1 - (a + pe) / wmm) powr (1 + b) \<le> ((1 - w0 / wm) powr (1 / (1 + b))) powr (1 + b)"
      using pos le assms by (intro powr_mono2) auto
    also have "\<dots> = (1 - w0 / wm) powr 1"
      using assms by (simp add: powr_powr)
    also have "\<dots> = 1 - w0 / wm" using q by simp
    finally have "wm * (1 - (a + pe) / wmm) powr (1 + b) \<le> wm * (1 - w0 / wm)"
      using assms by simp
    also have "\<dots> = wm - w0" using assms by (simp add: field_simps)
    finally show ?thesis using True by (simp add: rc_def)
  next
    case False
    then show ?thesis using assms by (simp add: rc_def)
  qed
  then show "r \<le> pe" using eq assms by simp
qed

lemma evap_zero_forcing:
  assumes "0 \<le> wu0" "0 \<le> wl0"
  shows "calculate_evap lm c wu0 wl0 0 0 = Inr (0, 0, 0)"
  using assms by (simp add: calculate_evap_def)

lemma clip_id: "lo \<le> x \<Longrightarrow> x \<le> hi \<Longrightarrow> clip x lo hi = x"
  by (simp add: clip_def)


lemma bindE_eq_Inr: "bindE m f = Inr y \<longleftrightarrow> (\<exists>x. m = Inr x \<and> f x = Inr y)"
  by (cases m) simp_all

lemma bindE_assoc: "bindE (bindE m f) g = bindE m (\<lambda>x. bindE (f x) g)"
  by (cases m) simp_all



lemma quarter_root: "(1 / 4 :: real) powr (1 / 2) = 1 / 2"
proof -
  have "(1 / 4 :: real) powr (1 / 2) = sqrt (1 / 4)" by (simp add: powr_half_sqrt)
  also have "\<dots> = 1 / 2" by (simp add: real_sqrt_divide)
  finally show ?thesis .
qed

subsection \<open>Runoff is bounded by net rainfall\<close>

text \<open>
  Claim C10. For \<open>B > 0\<close>, \<open>0 \<le> IM < 1\<close>, \<open>wm > 0\<close>, an antecedent moisture
  \<open>0 \<le> w0 \<le> wm\<close> and a net rainfall \<open>pe \<ge> 0\<close>, \<open>calculate_prcp_runoff\<close> returns a pair
  \<open>(r, r_im)\<close> with \<open>0 \<le> r \<le> pe\<close> and \<open>0 \<le> r_im \<le> pe\<close>, in exact real arithmetic.
\<close>

theorem C10_runoff_bounded:
  assumes "0 < b" "0 \<le> im" "im < 1" "0 < wm" "0 \<le> w0" "w0 \<le> wm" "0 \<le> pe"
  shows "\<exists>r r_im. calculate_prcp_runoff b im wm w0 pe = Inr (r, r_im) \<and>
           0 \<le> r \<and> r \<le> pe \<and> 0 \<le> r_im \<and> r_im \<le> pe"
proof -
  obtain r r_im where run: "calculate_prcp_runoff b im wm w0 pe = Inr (r, r_im)"
    using runoff_explicit[OF assms(1-4,6), of pe] by blast
  have "0 \<le> r" "r \<le> pe" "r_im = pe * im"
    using runoff_bounds[OF assms(1-4,6,7) run] by simp_all
  moreover have "0 \<le> pe * im" "pe * im \<le> pe"
    using assms by (simp_all add: mult_left_le)
  ultimately show ?thesis using run by auto
qed

theorem C10_runoff_bounded_witness:
  "(0::real) < 1 \<and> (0::real) \<le> 0 \<and> (0::real) < 1 \<and> (0::real) < 6 \<and> (0::real) \<le> 6
   \<and> (6::real) \<le> 6 \<and> (0::real) \<le> 4 \<and>
   (\<exists>r r_im. calculate_prcp_runoff 1 0 6 6 4 = Inr (r, r_im) \<and>
           0 \<le> r \<and> r \<le> 4 \<and> 0 \<le> r_im \<and> r_im \<le> 4)"
  using C10_runoff_bounded[of 1 0 6 6 4] by simp

subsection \<open>Zero forcing\<close>

text \<open>
  Claim C5. For valid parameters and an in-range prior state, a timestep with
  \<open>prcp = 0\<close> and \<open>pet = 0\<close> has the three evaporations equal to zero, and \<open>generation\<close>
  returns \<open>r = 0\<close>, \<open>r_im = 0\<close> (and \<open>e = 0\<close>, \<open>pe = 0\<close>) and each soil layer at its prior
  value minus its own evaporation, which is zero: the soil state is unchanged.
\<close>

theorem C5_zero_forcing:
  assumes v: "valid_gen_params um lm dm c b im"
    and s: "in_range_state um lm dm wu0 wl0 wd0"
  shows "calculate_evap lm c wu0 wl0 0 0 = Inr (0, 0, 0) \<and>
         generation (0, 0) um lm dm c b im (Some wu0) (Some wl0) (Some wd0)
           = Inr ((0, 0, 0, 0), (wu0 - 0, wl0 - 0, wd0 - 0))"
proof -
  have ev: "calculate_evap lm c wu0 wl0 0 0 = Inr (0, 0, 0)"
    using s by (simp add: evap_zero_forcing in_range_state_def)
  define w0 where "w0 = wu0 + wl0 + wd0"
  have w0: "0 \<le> w0" "w0 \<le> um + lm + dm" "0 < um + lm + dm"
    using s v by (simp_all add: in_range_state_def valid_gen_params_def w0_def)
  have vb: "0 < b" "0 \<le> im" "im < 1" using v by (simp_all add: valid_gen_params_def)
  obtain r rim where run: "calculate_prcp_runoff b im (um + lm + dm) w0 0 = Inr (r, rim)"
    using runoff_explicit[OF vb w0(3) w0(2), of 0] by blast
  have "0 \<le> r" "r \<le> 0" "rim = 0 * im"
    using runoff_bounds[OF vb w0(3) w0(2) _ run] by simp_all
  then have r0: "r = 0" "rim = 0" by simp_all
  have st: "calculate_w_storage um lm dm wu0 wl0 wd0 0 0 0 0 0 = (wu0, wl0, wd0)"
    using s by (simp add: calculate_w_storage_def in_range_state_def clip_id)
  have "generation (0, 0) um lm dm c b im (Some wu0) (Some wl0) (Some wd0)
           = Inr ((0, 0, 0, 0), (wu0, wl0, wd0))"
    using ev run r0 st w0(2) by (simp add: generation_def w0_def)
  then show ?thesis using ev by simp
qed

theorem C5_zero_forcing_witness:
  "valid_gen_params 2 2 2 (1/2) 1 0 \<and> in_range_state 2 2 2 1 1 1 \<and>
   calculate_evap 2 (1/2) 1 1 0 0 = Inr (0, 0, 0) \<and>
   generation (0, 0) 2 2 2 (1/2) 1 0 (Some 1) (Some 1) (Some 1)
     = Inr ((0, 0, 0, 0), (1, 1, 1))"
  using C5_zero_forcing[of 2 2 2 "1/2" 1 0 1 1 1]
  by (simp add: valid_gen_params_def in_range_state_def)

subsection \<open>Water balance of one timestep\<close>

text \<open>
  \<open>generation\<close> hands its net rainfall \<open>pe\<close> to \<open>calculate_w_storage\<close> as the argument
  \<open>p\<close>, and \<open>calculate_w_storage\<close> subtracts the evaporation from it once more before
  it tests the sign. The branch that adds water is therefore taken when \<open>pe - e > 0\<close>,
  not when \<open>pe > 0\<close>, and the clipping of the upper layer at zero can remove water.
\<close>

lemma ce_evap: "calculate_evap (1/2) (1/2) 3 0 3 2 = Inr (2, 0, 0)"
  by (simp add: calculate_evap_def)

lemma ce_runoff: "calculate_prcp_runoff 1 0 4 3 1 = Inr (9/16, 0)"
  by (simp add: calculate_prcp_runoff_def py_pow_def quarter_root power2_eq_square)

lemma ce_storage: "calculate_w_storage 3 (1/2) (1/2) 3 0 0 2 0 0 1 (9/16) = (1, 0, 0)"
  by (simp add: calculate_w_storage_def clip_def)

lemma ce_storage_rainfall:
  "calculate_w_storage 3 (1/2) (1/2) 3 0 0 2 0 0 3 (9/16) = (3, 7/16, 0)"
  by (simp add: calculate_w_storage_def clip_def)




text \<open>
  Claim C1. The water balance does not hold in the code. With \<open>UM = 3\<close>,
  \<open>LM = DM = 1/2\<close>, \<open>C = 1/2\<close>, \<open>B = 1\<close>, \<open>IM = 0\<close>, the state \<open>(3, 0, 0)\<close> and the
  forcing \<open>(3, 2)\<close>, \<open>generation\<close> returns \<open>pe = 1 > 0\<close>, \<open>r = 9/16\<close>, \<open>e = 2\<close> and the
  state \<open>(1, 0, 0)\<close>: the sum \<open>1\<close> is not \<open>3 + 1 - 9/16 - 2\<close>. Called with the rainfall
  \<open>3\<close>, as its docstring asks, \<open>calculate_w_storage\<close> returns \<open>(3, 7/16, 0)\<close>, the
  change \<open>pe - r\<close> of that docstring.
\<close>

theorem C1_water_balance_failing_input:
  "valid_gen_params 3 (1/2) (1/2) (1/2) 1 0 \<and> in_range_state 3 (1/2) (1/2) 3 0 0 \<and>
   generation (3, 2) 3 (1/2) (1/2) (1/2) 1 0 (Some 3) (Some 0) (Some 0)
     = Inr ((9/16, 0, 2, 1), (1, 0, 0)) \<and>
   (0::real) < 1 \<and> (1 + 0 + 0 :: real) \<noteq> 3 + 0 + 0 + 1 - 9/16 - 2 \<and>
   calculate_w_storage 3 (1/2) (1/2) 3 0 0 2 0 0 3 (9/16) = (3, 7/16, 0) \<and>
   (3 + 7/16 + 0 :: real) = 3 + 0 + 0 + (1 - 9/16)"
  by (simp add: valid_gen_params_def in_range_state_def generation_def ce_evap ce_runoff
        ce_storage ce_storage_rainfall)

section \<open>Properties of the standard partitioner\<close>

lemma bindE_eq_Inl: "bindE m f = Inl e \<longleftrightarrow> m = Inl e \<or> (\<exists>x. m = Inr x \<and> f x = Inl e)"
  by (cases m) simp_all

lemma py_pow_zero_division: "py_pow x y = Inl ZeroDivisionError \<longleftrightarrow> x = 0 \<and> y < 0"
  by (auto simp: py_pow_def)

lemma sources_zero_runoff:
  assumes "1 / 100000 \<le> pe"
  shows "sources pe 0 sm ex ki kg s0 fr0 = Inl ZeroDivisionError"
  using assms by (simp add: sources_def Let_def)

lemma sources_no_zero_division:
  assumes pe: "1 / 100000 \<le> pe" and r: "r \<noteq> 0" and sm: "0 < sm" and ex: "0 < ex"
  shows "sources pe r sm ex ki kg s0 fr0 \<noteq> Inl ZeroDivisionError"
proof -
  define s where "s = (case s0 of None \<Rightarrow> 0.60 * sm | Some v \<Rightarrow> v)"
  define f where "f = (case fr0 of None \<Rightarrow> 0.02 | Some v \<Rightarrow> (v::real))"
  define fr where "fr = r / pe"
  define sp where "sp = f * s / fr"
  define ms where "ms = sm * (1 + ex)"
  have pe0: "pe \<noteq> 0" "\<not> pe < 1 / 100000" using pe by auto
  have fr: "fr \<noteq> 0" using r pe0 by (simp add: fr_def)
  have ms: "0 < ms" using sm ex by (simp add: ms_def)
  have nz: "sm \<noteq> 0" "1 + ex \<noteq> 0" "ms \<noteq> 0" using sm ex ms by auto
  have k: "0 < 1 / (1 + ex)" using ex by simp
  have p1: "py_pow (1 - sp / sm) (1 / (1 + ex)) \<noteq> Inl ZeroDivisionError"
    using k by (simp add: py_pow_zero_division)
  have p2: "py_pow (1 - (pe + au) / ms) (ex + 1) \<noteq> Inl ZeroDivisionError" for au
    using ex by (simp add: py_pow_zero_division)
  show ?thesis
    unfolding sources_def Let_def s_def[symmetric] f_def[symmetric] ms_def[symmetric]
    using pe0 fr nz p1 p2
    by (auto simp: bindE_eq_Inl fr_def[symmetric] sp_def[symmetric]
          split: if_splits sum.splits)
qed

lemma c8_eval: "sources 1 1 10 1 (3/10) (3/10) (Some 10) (Some 1)
                  = Inr ((1, 3, 3), (1, 4))"
  by (simp add: sources_def py_pow_def)

text \<open>
  A power without a real value in \<open>au\<close> does not stop the standard partitioner: the
  call below returns finite values through equation 2.86, as the program does.
\<close>

lemma sources_nan_absorbed:
  "sources 6 (3/2) 10 1 (1/2) (1/10) (Some 10) (Some 1) = Inr ((9, 5/4, 1/4), (1/4, 4))"
proof -
  have "py_pow (- 3) (1/2) = Inl NotANumber" by (simp add: py_pow_def)
  then show ?thesis by (simp add: sources_def)
qed

text \<open>
  Claim C8. The standard partitioner divides by \<open>fr = r / pe\<close> whenever
  \<open>pe \<ge> 1e-5\<close>: with \<open>r = 0\<close> the first division by \<open>fr\<close>, in the computation of
  \<open>au\<close>, is a division by zero, whatever the other arguments are; with \<open>r \<noteq> 0\<close> (and
  \<open>SM > 0\<close>, \<open>EX > 0\<close>) no division by zero occurs.
\<close>

theorem C8_sources_division_by_zero:
  "(1 / 100000 \<le> pe \<longrightarrow> sources pe 0 sm ex ki kg s0 fr0 = Inl ZeroDivisionError) \<and>
   (1 / 100000 \<le> pe \<and> r \<noteq> 0 \<and> 0 < sm \<and> 0 < ex \<longrightarrow>
      sources pe r sm ex ki kg s0 fr0 \<noteq> Inl ZeroDivisionError)"
  using sources_zero_runoff sources_no_zero_division by blast

theorem C8_sources_division_by_zero_witness:
  "((1 / 100000 :: real) \<le> 1 \<and>
      sources 1 0 10 1 (3/10) (3/10) (Some 10) (Some 1) = Inl ZeroDivisionError) \<and>
   ((1 / 100000 :: real) \<le> 1 \<and> (1::real) \<noteq> 0 \<and> (0::real) < 10 \<and> (0::real) < 1 \<and>
      sources 1 1 10 1 (3/10) (3/10) (Some 10) (Some 1) \<noteq> Inl ZeroDivisionError)"
  using C8_sources_division_by_zero[of 1 10 1 "3/10" "3/10" "Some 10" "Some 1" 1]
  by simp

lemma sources_dry_fraction:
  assumes "pe < 1 / 100000"
    and "sources pe r sm ex ki kg s0 (Some fr0) = Inr (out, (fr, s1))"
  shows "fr = fr0"
  using assms by (auto simp: sources_def Let_def bindE_eq_Inr split: if_splits)

lemma sources_dry_step:
  assumes sm: "0 < sm" and ex: "0 < ex" and s0: "0 \<le> s0" "s0 \<le> sm" and fr0: "fr0 \<noteq> 0"
  shows "sources 0 0 sm ex ki kg (Some s0) (Some fr0)
           = Inr ((0, max (ki * s0 * fr0) 0, max (kg * s0 * fr0) 0),
                  (fr0, s0 * (1 - ki - kg)))"
proof -
  define ms where "ms = sm * (1 + ex)"
  define pw where "pw = (1 - s0 / sm) powr (1 / (1 + ex))"
  have ms: "0 < ms" using sm ex by (simp add: ms_def)
  have q: "0 \<le> 1 - s0 / sm" using sm s0 by simp
  have p1: "py_pow (1 - s0 / sm) (1 / (1 + ex)) = Inr pw"
    unfolding pw_def using q ex by (intro py_pow_nonneg) auto
  have pw0: "0 \<le> pw" by (simp add: pw_def)
  have start: "sources 0 0 sm ex ki kg (Some s0) (Some fr0) =
           bindE (if ms * (1 - pw) < ms
                  then bindE (fdiv (ms * (1 - pw)) ms) (\<lambda>t.
                       bindE (py_pow (1 - t) (ex + 1)) (\<lambda>pw2.
                         Inr (fr0 * (s0 - sm + sm * pw2))))
                  else Inr (fr0 * (s0 - sm))) (\<lambda>rs.
           bindE (fdiv (0 - rs) fr0) (\<lambda>d.
             Inr ((max rs 0, max (ki * (s0 + d) * fr0) 0, max (kg * (s0 + d) * fr0) 0),
                  (fr0, (s0 + d) * (1 - ki - kg)))))"
    unfolding sources_def Let_def ms_def[symmetric]
    using fr0 sm ex p1 by simp
  have rs: "(if ms * (1 - pw) < ms
             then bindE (fdiv (ms * (1 - pw)) ms) (\<lambda>t.
                  bindE (py_pow (1 - t) (ex + 1)) (\<lambda>pw2.
                    Inr (fr0 * (s0 - sm + sm * pw2))))
             else Inr (fr0 * (s0 - sm))) = Inr 0"
  proof (cases "ms * (1 - pw) < ms")
    case True
    then have pos: "0 < pw" using ms by simp
    have e1: "(1 / (1 + ex)) * (ex + 1) = 1" using ex by simp
    have "pw powr (ex + 1) = (1 - s0 / sm) powr ((1 / (1 + ex)) * (ex + 1))"
      by (simp only: pw_def powr_powr)
    also have "\<dots> = (1 - s0 / sm) powr 1" by (simp only: e1)
    also have "\<dots> = 1 - s0 / sm" using q by simp
    finally have pw2: "pw powr (ex + 1) = 1 - s0 / sm" .
    have z: "s0 - sm + sm * (1 - s0 / sm) = 0" using sm by (simp add: field_simps)
    have "py_pow pw (ex + 1) = Inr (1 - s0 / sm)"
      using pos pw2 by (simp add: py_pow_pos)
    then show ?thesis using True ms z by simp
  next
    case False
    then have "pw \<le> 0" using ms by simp
    then have "pw = 0" using pw0 by simp
    then have "1 - s0 / sm = 0" by (simp add: pw_def)
    then have "s0 = sm" using sm by simp
    then show ?thesis using False by simp
  qed
  show ?thesis unfolding start rs using fr0 by simp
qed

text \<open>
  Claim C3, as stated, fails: the storage returned is the storage after the outflow of
  the step. With \<open>pe = 0\<close>, \<open>r = 0\<close>, \<open>SM = 10\<close>, \<open>EX = 1\<close>, \<open>KI = KG = 3/10\<close>, \<open>s0 = 10\<close>
  and \<open>fr0 = 1/2\<close> the returned storage is \<open>4\<close>, not \<open>10\<close>.
\<close>

theorem C3_sources_dry_step_counterexample:
  "(0::real) < 1 / 100000 \<and>
   sources 0 0 10 1 (3/10) (3/10) (Some 10) (Some (1/2)) = Inr ((0, 3/2, 3/2), (1/2, 4)) \<and>
   (4::real) \<noteq> 10"
  by (simp add: sources_def py_pow_def)

text \<open>
  Claim C3, amended. For \<open>SM > 0\<close>, \<open>EX > 0\<close>, \<open>0 \<le> s0 \<le> SM\<close> and \<open>fr0 \<noteq> 0\<close>: a call with
  \<open>pe = 0\<close> and \<open>r = 0\<close> returns \<open>rs = 0\<close>, the outflows \<open>max (KI * s0 * fr0) 0\<close> and
  \<open>max (KG * s0 * fr0) 0\<close>, the area fraction \<open>fr0\<close> and the storage
  \<open>s0 * (1 - KI - KG)\<close>; and every call with \<open>pe < 1e-5\<close> that returns, returns the area
  fraction \<open>fr0\<close>.
\<close>

theorem C3_sources_dry_step:
  assumes "0 < sm" "0 < ex" "0 \<le> s0" "s0 \<le> sm" "fr0 \<noteq> 0"
  shows "sources 0 0 sm ex ki kg (Some s0) (Some fr0)
           = Inr ((0, max (ki * s0 * fr0) 0, max (kg * s0 * fr0) 0),
                  (fr0, s0 * (1 - ki - kg))) \<and>
         (\<forall>pe r out fr s1. pe < 1 / 100000 \<longrightarrow>
            sources pe r sm ex ki kg (Some s0) (Some fr0) = Inr (out, (fr, s1)) \<longrightarrow> fr = fr0)"
  using sources_dry_step[OF assms] sources_dry_fraction by blast

theorem C3_sources_dry_step_witness:
  "(0::real) < 10 \<and> (0::real) < 1 \<and> (0::real) \<le> 10 \<and> (10::real) \<le> 10 \<and> (1/2::real) \<noteq> 0 \<and>
   sources 0 0 10 1 (3/10) (3/10) (Some 10) (Some (1/2)) = Inr ((0, 3/2, 3/2), (1/2, 4)) \<and>
   ((0::real) < 1 / 100000 \<and>
    sources 0 0 10 1 (3/10) (3/10) (Some 10) (Some (1/2)) = Inr ((0, 3/2, 3/2), (1/2, 4)) \<and>
    (1/2::real) = 1/2)"
  using C3_sources_dry_step[of 10 1 10 "1/2" "3/10" "3/10"]
  by simp

section \<open>Properties of the sub-stepped partitioner\<close>

lemma py_pow_one: "py_pow x 1 = Inr x"
  by (simp add: py_pow_def)

lemma split_coefficients_one:
  assumes "kss \<noteq> 0" "kss + kg \<noteq> 0"
  shows "split_coefficients kss kg 1 = Inr (kss, kg)"
proof -
  have "1 + kg / kss \<noteq> 0" using assms by (simp add: field_simps)
  moreover have "(kss + kg) / (1 + kg / kss) = kss" using assms by (simp add: field_simps)
  moreover have "(kss + kg) * kg / ((1 + kg / kss) * kss) = kg"
  proof -
    have "(1 + kg / kss) * kss = kss + kg" using assms by (simp add: field_simps)
    then show ?thesis using assms by simp
  qed
  ultimately show ?thesis using assms by (simp add: split_coefficients_def py_pow_one)
qed

lemma split_coefficients_valid:
  assumes kss: "0 < kss" and kg: "0 \<le> kg" and lt: "kss + kg < 1" and m: "1 \<le> m"
  shows "\<exists>a b. split_coefficients kss kg m = Inr (a, b) \<and> 0 < a \<and> 0 \<le> b \<and> a + b < 1"
proof -
  define pw where "pw = (1 - (kss + kg)) powr (1 / m)"
  have base: "0 < 1 - (kss + kg)" "1 - (kss + kg) < 1" using assms by auto
  have p: "py_pow (1 - (kss + kg)) (1 / m) = Inr pw"
    using base by (simp add: py_pow_pos pw_def)
  have pw0: "0 < pw" using base by (simp add: pw_def)
  have "(1 - (kss + kg)) powr (1 / m) < 1 powr (1 / m)"
    using base m by (intro powr_less_mono2) auto
  then have pw1: "pw < 1" by (simp add: pw_def)
  define ratio where "ratio = kg / kss"
  have ratio: "0 \<le> ratio" using kss kg by (simp add: ratio_def)
  define a where "a = (1 - pw) / (1 + ratio)"
  define b where "b = a * kg / kss"
  have a: "0 < a" using pw1 ratio by (simp add: a_def)
  have b: "0 \<le> b" using a kg kss by (simp add: b_def)
  have "a + b = a * (1 + ratio)" using kss by (simp add: b_def ratio_def field_simps)
  also have "\<dots> = 1 - pw" using ratio by (simp add: a_def)
  finally have ab: "a + b < 1" using pw0 by simp
  have "(1 - pw) * kg / ((1 + ratio) * kss) = a * kg / kss"
    by (simp add: a_def)
  then have "split_coefficients kss kg m = Inr (a, b)"
    using m kss ratio p
    by (simp add: split_coefficients_def ratio_def[symmetric] a_def[symmetric] b_def)
  then show ?thesis using a b ab by blast
qed

lemma period_num_1d_pos:
  assumes "0 < t"
  shows "\<exists>p. period_num_1d t = Inr p \<and> 1 \<le> p"
proof (cases "t \<le> 24")
  case True
  then have "1 \<le> 24 / real_of_int t" using assms by (simp add: field_simps)
  then have "1 \<le> \<lfloor>24 / real_of_int t\<rfloor>" by linarith
  then show ?thesis using assms by (simp add: period_num_1d_def py_int_def)
next
  case False
  then have "24 mod t = 24" by simp
  moreover have "0 \<le> \<lfloor>24 / real_of_int t\<rfloor>" using assms by simp
  ultimately show ?thesis using assms by (simp add: period_num_1d_def py_int_def)
qed

lemma period_num_1d_daily: "period_num_1d 24 = Inr 1"
  by (simp add: period_num_1d_def py_int_def)

lemma sources5mm_ki_zero:
  assumes "kg \<le> 1"
  shows "sources5mm pe runoff sm ex 0 kg s0 fr0 t book = Inl ZeroDivisionError"
proof (cases "period_num_1d t")
  case (Inl e)
  then have "e = ZeroDivisionError" by (auto simp: period_num_1d_def split: if_splits)
  then show ?thesis using Inl by (simp add: sources5mm_def)
next
  case (Inr p)
  have "split_coefficients 0 kg (of_int p) = Inl ZeroDivisionError"
  proof (cases "p = 0")
    case True
    then show ?thesis by (simp add: split_coefficients_def)
  next
    case False
    have "py_pow (1 - kg) (1 / of_int p) = Inl ZeroDivisionError
          \<or> (\<exists>v. py_pow (1 - kg) (1 / of_int p) = Inr v)"
      using assms False by (auto simp: py_pow_def)
    then show ?thesis using False by (auto simp: split_coefficients_def)
  qed
  then show ?thesis using Inr by (simp add: sources5mm_def)
qed

lemma sources5mm_ki_zero_fails:
  "\<exists>e. sources5mm pe runoff sm ex 0 kg s0 fr0 t book = Inl e"
proof (cases "period_num_1d t")
  case (Inl e)
  then show ?thesis by (simp add: sources5mm_def)
next
  case (Inr p)
  have "\<exists>e. split_coefficients 0 kg (of_int p) = Inl e"
    by (cases "fdiv 1 (of_int p)"; cases "py_pow (1 - (0 + kg)) (1 / of_int p)")
       (auto simp: split_coefficients_def fdiv_def split: if_splits)
  then show ?thesis using Inr by (auto simp: sources5mm_def)
qed

lemma bindE_return: "bindE m Inr = m"
  by (cases m) simp_all

lemma slice_loop_zero: "slice_loop 0 body = Inr"
  by (rule ext) simp

lemma slice_loop_one: "slice_loop (Suc 0) body st = body st"
  by (simp add: slice_loop_zero bindE_return)

lemma c9_eval: "split_coefficients (1/4) (1/4) 1 = Inr (1/4, 1/4)"
  by (rule split_coefficients_one) simp_all



text \<open>
  A runoff that is an exact multiple of 5 (and at least 5) leaves the number of slices a
  float, and the loop fails with \<open>TypeError\<close>.
\<close>

lemma sources5mm_float_count:
  assumes ki: "0 < ki" and kg: "0 \<le> kg" and lt: "ki + kg < 1" and t: "0 < t"
    and r: "5 \<le> runoff" "runoff = 5 * of_int m"
  shows "sources5mm pe runoff sm ex ki kg s0 fr0 t book = Inl TypeError"
proof -
  obtain p where p: "period_num_1d t = Inr p" "1 \<le> p"
    using period_num_1d_pos[OF t] by blast
  then have "1 \<le> (of_int p :: real)" by simp
  from split_coefficients_valid[OF ki kg lt this]
  obtain kss kgp where c: "split_coefficients ki kg (of_int p) = Inr (kss, kgp)"
    "0 < kss" "0 \<le> kgp" "kss + kgp < 1" by blast
  have m: "1 \<le> m" using r by linarith
  have fl: "\<lfloor>runoff / 5\<rfloor> = m" using r(2) by simp
  have n: "slice_count runoff = nat m"
    using r(1) m by (simp add: slice_count_def py_int_def fl) (simp add: r(2))
  have ni: "\<not> slice_count_integral runoff"
    using r(1) by (simp add: slice_count_integral_def fl) (simp add: r(2))
  have "1 \<le> (of_nat (nat m) :: real)" using m by simp
  from split_coefficients_valid[OF c(2,3,4) this]
  obtain a b where d: "split_coefficients kss kgp (of_nat (nat m)) = Inr (a, b)" by blast
  have fr: "\<exists>x. (if pe > 1 / 100000 then fdiv runoff pe else Inr f) = Inr x" for f
    by simp
  show ?thesis
    unfolding sources5mm_def Let_def p(1) n
    using ni fr by (auto simp: c(1) d)
qed

text \<open>
  Claim C9. With \<open>KI = 0\<close> every call to the sub-stepped partitioner ends in an
  error, and with \<open>KG \<le> 1\<close> (so that the root is real) that error is the division by
  zero: \<open>kg / ki\<close> divides by \<open>KI\<close>. With \<open>KI > 0\<close>, \<open>KG \<ge> 0\<close>, \<open>KI + KG < 1\<close> and a
  positive time interval the conversion to the period is defined and gives coefficients
  with \<open>kss_period > 0\<close>, \<open>kg_period \<ge> 0\<close> and \<open>kss_period + kg_period < 1\<close>, so the later
  divisions by \<open>kss_period\<close> are defined as well.
\<close>

theorem C9_sources5mm_ki_zero:
  "(\<exists>e. sources5mm pe runoff sm ex 0 kg s0 fr0 t book = Inl e) \<and>
   (kg \<le> 1 \<longrightarrow> sources5mm pe runoff sm ex 0 kg s0 fr0 t book = Inl ZeroDivisionError) \<and>
   (0 < ki \<and> 0 \<le> kg \<and> ki + kg < 1 \<and> 0 < t \<longrightarrow>
      (\<exists>p kss kgp. period_num_1d t = Inr p \<and>
         split_coefficients ki kg (of_int p) = Inr (kss, kgp) \<and>
         0 < kss \<and> 0 \<le> kgp \<and> kss + kgp < 1))"
proof (intro conjI impI)
  show "\<exists>e. sources5mm pe runoff sm ex 0 kg s0 fr0 t book = Inl e"
    by (rule sources5mm_ki_zero_fails)
  show "sources5mm pe runoff sm ex 0 kg s0 fr0 t book = Inl ZeroDivisionError" if "kg \<le> 1"
    using that by (rule sources5mm_ki_zero)
  assume a: "0 < ki \<and> 0 \<le> kg \<and> ki + kg < 1 \<and> 0 < t"
  then obtain p where p: "period_num_1d t = Inr p" "1 \<le> p"
    using period_num_1d_pos by blast
  then have "1 \<le> (of_int p :: real)" by simp
  from split_coefficients_valid[OF _ _ _ this, of ki kg] a p(1)
  show "\<exists>p kss kgp. period_num_1d t = Inr p \<and>
         split_coefficients ki kg (of_int p) = Inr (kss, kgp) \<and>
         0 < kss \<and> 0 \<le> kgp \<and> kss + kgp < 1"
    by blast
qed

theorem C9_sources5mm_ki_zero_witness:
  "((1/4 :: real) \<le> 1 \<and>
      sources5mm 1 1 35 (6/5) 0 (1/4) None None 24 ''ShuiWenYuBao''
        = Inl ZeroDivisionError) \<and>
   ((0::real) < 1/4 \<and> (0::real) \<le> 1/4 \<and> (1/4 + 1/4 :: real) < 1 \<and> (0::int) < 24 \<and>
      period_num_1d 24 = Inr 1 \<and>
      split_coefficients (1/4) (1/4) (of_int 1) = Inr (1/4, 1/4) \<and>
      (0::real) < 1/4 \<and> (0::real) \<le> 1/4 \<and> (1/4 + 1/4 :: real) < 1)"
  using C9_sources5mm_ki_zero[of 1 1 35 "6/5" "1/4" None None 24 "''ShuiWenYuBao''" "1/4"]
  by (simp add: period_num_1d_daily c9_eval)

lemma slice_step_ShuiWenYuBao:
  assumes sm: "0 < sm" and ex: "0 < ex" and fr: "0 < fr" "fr \<le> 1"
  shows "slice_step ''ShuiWenYuBao'' sm ex (sm * (1 + ex)) fr 1 r pe kss kg ((0, 0, 0), (fr0, s0))
           = Inr (closed_form_ShuiWenYuBao sm ex kss kg fr pe r fr0 s0)"
proof -
  define ms where "ms = sm * (1 + ex)"
  define s_d where "s_d = (if fr0 * s0 / fr > sm then sm else fr0 * s0 / fr)"
  define au where "au = ms * (1 - (1 - s_d / sm) powr (1 / (1 + ex)))"
  define rs where "rs = (if pe + au \<ge> ms then (pe + s_d - sm) * fr
                else (pe - sm + s_d + sm * (1 - (pe + au) / ms) powr (ex + 1)) * fr)"
  have ms: "0 < ms" using sm ex by (simp add: ms_def)
  have sd: "s_d \<le> sm" by (simp add: s_d_def)
  have base: "0 \<le> 1 - s_d / sm" using sd sm by simp
  have p1: "py_pow (1 - s_d / sm) (1 / (1 + ex)) = Inr ((1 - s_d / sm) powr (1 / (1 + ex)))"
    using base ex by (intro py_pow_nonneg) auto
  have rsj: "(if pe + au \<ge> ms then Inr ((pe + s_d - sm) * fr)
              else bindE (fdiv (pe + au) ms) (\<lambda>t.
                   bindE (py_pow (1 - t) (ex + 1)) (\<lambda>pw2.
                     Inr ((pe - sm + s_d + sm * pw2) * fr)))) = Inr rs"
  proof (cases "pe + au \<ge> ms")
    case True
    then show ?thesis by (simp add: rs_def)
  next
    case False
    then have "0 < 1 - (pe + au) / ms" using ms by simp
    then have "py_pow (1 - (pe + au) / ms) (ex + 1) = Inr ((1 - (pe + au) / ms) powr (ex + 1))"
      by (rule py_pow_pos)
    then show ?thesis using False ms by (simp add: rs_def)
  qed
  have frd: "1 - (1 - fr) = fr" by simp
  have "slice_step ''ShuiWenYuBao'' sm ex (sm * (1 + ex)) fr 1 r pe kss kg ((0, 0, 0), (fr0, s0))
        = bindE (if pe + au \<ge> ms then Inr ((pe + s_d - sm) * fr)
              else bindE (fdiv (pe + au) ms) (\<lambda>t.
                   bindE (py_pow (1 - t) (ex + 1)) (\<lambda>pw2.
                     Inr ((pe - sm + s_d + sm * pw2) * fr)))) (\<lambda>rs_j.
          bindE (fdiv (r - rs_j) fr) (\<lambda>d.
            Inr ((0 + rs_j, 0 + (s_d + d) * kss * fr, 0 + (s_d + d) * kg * fr),
                 (fr, (s_d + d) * (1 - (s_d + d) * kss * fr + (s_d + d) * kg * fr)))))"
    unfolding slice_step_def Let_def prod.case
    using fr sm ex p1
    by (simp add: py_pow_one frd s_d_def[symmetric] ms_def[symmetric] au_def[symmetric]
          bindE_assoc)
  also have "\<dots> = Inr (closed_form_ShuiWenYuBao sm ex kss kg fr pe r fr0 s0)"
    unfolding rsj closed_form_ShuiWenYuBao_def Let_def ms_def[symmetric]
      s_d_def[symmetric] au_def[symmetric] rs_def[symmetric]
    using fr by simp
  finally show ?thesis .
qed

lemma slice_step_GongChengShuiWenXue:
  assumes book: "book \<noteq> ''ShuiWenYuBao''"
    and sm: "0 < sm" and ex: "0 < ex" and fr: "0 < fr" "fr \<le> 1"
  shows "slice_step book sm ex (sm * (1 + ex)) fr 1 r pe kss kg ((0, 0, 0), (fr0, s0))
           = Inr (closed_form_GongChengShuiWenXue sm ex kss kg fr pe r fr0 s0)"
proof -
  define pw0 where "pw0 = (1 - fr) powr (1 / ex)"
  define smmf where "smmf = sm * (1 + ex) * (1 - pw0)"
  define smf where "smf = smmf / (1 + ex)"
  define s_d where "s_d = (if fr0 * s0 / fr > smf then smf else fr0 * s0 / fr)"
  define pw1 where "pw1 = (1 - s_d / smf) powr (1 / (1 + ex))"
  define au where "au = smmf * (1 - pw1)"
  have b0: "0 \<le> 1 - fr" "1 - fr < 1" using fr by simp_all
  have p0: "py_pow (1 - fr) (1 / ex) = Inr pw0"
    unfolding pw0_def using b0 ex by (intro py_pow_nonneg) auto
  have "(1 - fr) powr (1 / ex) < 1 powr (1 / ex)"
    using b0 ex by (intro powr_less_mono2) auto
  then have pw0: "pw0 < 1" by (simp add: pw0_def)
  have smmf: "0 < smmf" using sm ex pw0 by (simp add: smmf_def)
  have smf: "0 < smf" using smmf ex by (simp add: smf_def)
  have sd: "s_d \<le> smf" by (simp add: s_d_def)
  have base: "0 \<le> 1 - s_d / smf" using sd smf by simp
  have p1: "py_pow (1 - s_d / smf) (1 / (1 + ex)) = Inr pw1"
    unfolding pw1_def using base ex by (intro py_pow_nonneg) auto
  have frd: "1 - (1 - fr) = fr" by simp
  have nz: "fr \<noteq> 0" "ex \<noteq> 0" "1 + ex \<noteq> 0" "smf \<noteq> 0" "smmf \<noteq> 0"
    using fr ex smf smmf by auto
  have bk: "(book = ''ShuiWenYuBao'') = False" using book by simp
  have f1: "fdiv 1 1 = Inr 1" by simp
  have f2: "py_pow (1 - fr) 1 = Inr (1 - fr)" by (rule py_pow_one)
  have f3: "fdiv smmf (1 + ex) = Inr smf" using nz(3) by (simp add: smf_def)
  have cf: "closed_form_GongChengShuiWenXue sm ex kss kg fr pe r fr0 s0 =
      (if pe + au \<ge> smmf then
           (((pe + s_d - smf) * fr, smf * kss * fr, smf * kg * fr),
            (fr, smf - (smf * kss * fr + smf * kg * fr) / fr))
         else
           (((pe - smf + s_d + smf * (1 - (pe + au) / smmf) powr (ex + 1)) * fr,
            (pe - (pe - smf + s_d + smf * (1 - (pe + au) / smmf) powr (ex + 1)) * fr / fr
               + s_d) * kss * fr,
            (pe - (pe - smf + s_d + smf * (1 - (pe + au) / smmf) powr (ex + 1)) * fr / fr
               + s_d) * kg * fr),
            (fr, s_d + pe -
               ((pe - smf + s_d + smf * (1 - (pe + au) / smmf) powr (ex + 1)) * fr
                + (pe - (pe - smf + s_d + smf * (1 - (pe + au) / smmf) powr (ex + 1)) * fr / fr
                     + s_d) * kss * fr
                + (pe - (pe - smf + s_d + smf * (1 - (pe + au) / smmf) powr (ex + 1)) * fr / fr
                     + s_d) * kg * fr) / fr)))"
    unfolding closed_form_GongChengShuiWenXue_def Let_def pw0_def[symmetric]
      smmf_def[symmetric] smf_def[symmetric] s_d_def[symmetric] pw1_def[symmetric]
      au_def[symmetric]
    by (rule refl)
  show ?thesis
  proof (cases "pe + au \<ge> smmf")
    case True
    then have c: "(smmf \<le> pe + au) = True" by simp
    show ?thesis
      unfolding slice_step_def Let_def prod.case cf
      by (simp only: bk if_False f1 f2 bindE_Inr frd fdiv_nz[OF nz(1)] fdiv_nz[OF nz(2)]
            fdiv_nz[OF nz(3)] fdiv_nz[OF nz(4)] p0 smmf_def[symmetric] smf_def[symmetric]
            s_d_def[symmetric] p1 au_def[symmetric] c if_True prod.case add_0)
  next
    case False
    then have c: "(smmf \<le> pe + au) = False" by simp
    have "0 < 1 - (pe + au) / smmf" using False smmf by simp
    then have p2: "py_pow (1 - (pe + au) / smmf) (ex + 1)
                     = Inr ((1 - (pe + au) / smmf) powr (ex + 1))"
      by (rule py_pow_pos)
    show ?thesis
      unfolding slice_step_def Let_def prod.case cf
      by (simp only: bk if_False f1 f2 bindE_Inr frd fdiv_nz[OF nz(1)] fdiv_nz[OF nz(2)]
            fdiv_nz[OF nz(3)] fdiv_nz[OF nz(4)] fdiv_nz[OF nz(5)] p0 smmf_def[symmetric] smf_def[symmetric]
            s_d_def[symmetric] p1 au_def[symmetric] c p2 prod.case add_0)
  qed
qed

lemma slice_step_single:
  assumes "0 < sm" "0 < ex" "0 < fr" "fr \<le> 1"
  shows "slice_step book sm ex (sm * (1 + ex)) fr 1 r pe kss kg ((0, 0, 0), (fr0, s0))
           = Inr (closed_form_step book sm ex kss kg fr pe r fr0 s0)"
  using slice_step_ShuiWenYuBao[OF assms] slice_step_GongChengShuiWenXue[OF _ assms]
  by (simp add: closed_form_step_def)

lemma clip_fr_range: "0 < clip x 0.001 1 \<and> clip x 0.001 1 \<le> 1"
  by (simp add: clip_def)

lemma closed_form_eval:
  "closed_form_step ''ShuiWenYuBao'' 10 1 (1/2) (1/10) (1/2) 4 2 (1/2) (15/2)
     = ((6/5, 91/40, 91/200), (1/2, - (3731/500)))"
  by (simp add: closed_form_step_def closed_form_ShuiWenYuBao_def quarter_root
        power2_eq_square Let_def)

text \<open>
  Claim C6. For a generated runoff below 5 mm and \<open>SM > 0\<close>, \<open>EX > 0\<close>, \<open>KI > 0\<close>,
  \<open>KG \<ge> 0\<close>, \<open>KI + KG < 1\<close> (and a positive time interval) the number of slices is the
  integer 1, and the sub-stepped partitioner returns the closed-form slice update of the
  selected book, applied once to the whole \<open>pe\<close> and \<open>r\<close> from the initial \<open>(fr0, s0)\<close> at
  the clipped area fraction, with the period's coefficients not split any further; for
  the daily interval these are \<open>KI\<close> and \<open>KG\<close> themselves.
\<close>

theorem C6_sources5mm_single_slice:
  assumes r: "runoff < 5" and sm: "0 < sm" and ex: "0 < ex"
    and ki: "0 < ki" and kg: "0 \<le> kg" and lt: "ki + kg < 1" and t: "0 < t"
  shows "slice_count runoff = 1 \<and> slice_count_integral runoff \<and>
     (\<exists>p kss kgp. period_num_1d t = Inr p \<and>
        split_coefficients ki kg (of_int p) = Inr (kss, kgp) \<and>
        (t = 24 \<longrightarrow> kss = ki \<and> kgp = kg) \<and>
        sources5mm pe runoff sm ex ki kg s0 fr0 t book =
          Inr (closed_form_step book sm ex kss kgp
                 (clip (if pe > 1 / 100000 then runoff / pe
                        else (case fr0 of None \<Rightarrow> 0.02 | Some v \<Rightarrow> v)) 0.001 1)
                 pe runoff
                 (case fr0 of None \<Rightarrow> 0.02 | Some v \<Rightarrow> v)
                 (case s0 of None \<Rightarrow> 0.60 * sm | Some v \<Rightarrow> v)))"
proof -
  have n: "slice_count runoff = 1" using r by (simp add: slice_count_def)
  have i: "slice_count_integral runoff" using r by (simp add: slice_count_integral_def)
  obtain p where p: "period_num_1d t = Inr p" "1 \<le> p"
    using period_num_1d_pos[OF t] by blast
  then have "1 \<le> (of_int p :: real)" by simp
  from split_coefficients_valid[OF ki kg lt this]
  obtain kss kgp where c: "split_coefficients ki kg (of_int p) = Inr (kss, kgp)"
    "0 < kss" "0 \<le> kgp" by blast
  have one: "split_coefficients kss kgp 1 = Inr (kss, kgp)"
    using c(2,3) by (intro split_coefficients_one) auto
  have day: "kss = ki \<and> kgp = kg" if "t = 24"
  proof -
    have "p = 1" using that p(1) by (simp add: period_num_1d_daily)
    moreover have "split_coefficients ki kg 1 = Inr (ki, kg)"
      using ki kg by (intro split_coefficients_one) auto
    ultimately show ?thesis using c(1) by simp
  qed
  define f0 where "f0 = (case fr0 of None \<Rightarrow> 0.02 | Some v \<Rightarrow> (v::real))"
  define z0 where "z0 = (case s0 of None \<Rightarrow> 0.60 * sm | Some v \<Rightarrow> v)"
  have main: "sources5mm pe runoff sm ex ki kg s0 fr0 t book =
          Inr (closed_form_step book sm ex kss kgp (clip x 0.001 1) pe runoff f0 z0)"
    if x: "(if pe > 1 / 100000 then fdiv runoff pe else Inr f0) = Inr x" for x
  proof -
    have "slice_step book sm ex (sm * (1 + ex)) (clip x 0.001 1) 1 runoff pe kss kgp
            ((0, 0, 0), (f0, z0))
           = Inr (closed_form_step book sm ex kss kgp (clip x 0.001 1) pe runoff f0 z0)"
      using slice_step_single[OF sm ex] clip_fr_range by blast
    then show ?thesis
      unfolding sources5mm_def Let_def p(1) n f0_def[symmetric] z0_def[symmetric] x
      using i by (simp add: c(1) one slice_loop_zero bindE_return)
  qed
  have "(if pe > 1 / 100000 then fdiv runoff pe else Inr f0)
            = Inr (if pe > 1 / 100000 then runoff / pe else f0)"
    by simp
  from main[OF this] show ?thesis
    using n i p(1) c(1) day unfolding f0_def z0_def by blast
qed

theorem C6_sources5mm_single_slice_witness:
  "(2::real) < 5 \<and> (0::real) < 10 \<and> (0::real) < 1 \<and> (0::real) < 1/2 \<and> (0::real) \<le> 1/10 \<and>
   (1/2 + 1/10 :: real) < 1 \<and> (0::int) < 24 \<and>
   slice_count 2 = 1 \<and> slice_count_integral 2 \<and>
   sources5mm 4 2 10 1 (1/2) (1/10) (Some (15/2)) (Some (1/2)) 24 ''ShuiWenYuBao''
     = Inr ((6/5, 91/40, 91/200), (1/2, - (3731/500)))"
proof -
  have h: "(2::real) < 5" "(0::real) < 10" "(0::real) < 1" "(0::real) < 1/2"
    "(0::real) \<le> 1/10" "(1/2 + 1/10 :: real) < 1" "(0::int) < 24" by simp_all
  from C6_sources5mm_single_slice[OF h, of 4 "Some (15/2)" "Some (1/2)" "''ShuiWenYuBao''"]
  obtain kss kgp where n: "slice_count 2 = 1" "slice_count_integral 2"
    and k: "(24::int) = 24 \<longrightarrow> kss = 1/2 \<and> kgp = 1/10"
    and e: "sources5mm 4 2 10 1 (1/2) (1/10) (Some (15/2)) (Some (1/2)) 24 ''ShuiWenYuBao''
              = Inr (closed_form_step ''ShuiWenYuBao'' 10 1 kss kgp
                       (clip (if (4::real) > 1 / 100000 then 2 / 4 else 1/2) 0.001 1)
                       4 2 (1/2) (15/2))"
    by auto
  have ks: "kss = 1/2" "kgp = 1/10" using k by simp_all
  have fr: "clip (if (4::real) > 1 / 100000 then 2 / 4 else 1/2) 0.001 1 = 1/2"
    by (simp add: clip_def)
  show ?thesis using h n e unfolding ks fr closed_form_eval by simp
qed

section \<open>Properties of the driver\<close>







lemma get_state_fill:
  "bindE (get_state (fill_defaults P m) k) f = bindE (get_state m k) (\<lambda>v. f (norm_state P k v))"
  by (simp add: get_state_def fill_defaults_def norm_state_def split: option.splits)

lemma read_states_fill:
  "read_states (Some (fill_defaults P m)) =
     bindE (read_states (Some m)) (\<lambda>((wu0, wl0, wd0), (s0, fr0), (qs0, qi0, qg0)).
       Inr ((norm_state P ''WU0'' wu0, norm_state P ''WL0'' wl0, norm_state P ''WD0'' wd0),
            (norm_state P ''S0'' s0, norm_state P ''FR0'' fr0),
            (norm_state P ''QS0'' qs0, norm_state P ''QI0'' qi0, norm_state P ''QG0'' qg0)))"
  by (simp add: read_states_def get_state_fill bindE_assoc)

lemma generation_default:
  "generation x um lm dm c b im wu0 wl0 wd0 =
   generation x um lm dm c b im
     (Some (case wu0 of None \<Rightarrow> 0.6 * um | Some v \<Rightarrow> v))
     (Some (case wl0 of None \<Rightarrow> 0.6 * lm | Some v \<Rightarrow> v))
     (Some (case wd0 of None \<Rightarrow> 0.6 * dm | Some v \<Rightarrow> v))"
  by (simp add: generation_def)

lemma sources_default:
  "sources pe r sm ex ki kg s0 fr0 =
   sources pe r sm ex ki kg
     (Some (case s0 of None \<Rightarrow> 0.6 * sm | Some v \<Rightarrow> v))
     (Some (case fr0 of None \<Rightarrow> 0.02 | Some v \<Rightarrow> v))"
  by (cases s0; cases fr0) (simp_all add: sources_def)

lemma sources5mm_default:
  "sources5mm pe r sm ex ki kg s0 fr0 t book =
   sources5mm pe r sm ex ki kg
     (Some (case s0 of None \<Rightarrow> 0.6 * sm | Some v \<Rightarrow> v))
     (Some (case fr0 of None \<Rightarrow> 0.02 | Some v \<Rightarrow> v)) t book"
  by (cases s0; cases fr0) (simp_all add: sources5mm_def)

lemma divide_sources_default:
  "divide_sources st sb pe r sm ex ki kg s0 fr0 =
   divide_sources st sb pe r sm ex ki kg
     (Some (case s0 of None \<Rightarrow> 0.6 * sm | Some v \<Rightarrow> v))
     (Some (case fr0 of None \<Rightarrow> 0.02 | Some v \<Rightarrow> v))"
  unfolding divide_sources_def
  using sources_default[of pe r sm ex ki kg s0 fr0]
        sources5mm_default[of pe r sm ex ki kg s0 fr0 24 sb]
  by simp

lemma norm_state_simps:
  "norm_state P ''WU0'' v = Some (case v of None \<Rightarrow> 0.6 * par_UM P | Some x \<Rightarrow> x)"
  "norm_state P ''WL0'' v = Some (case v of None \<Rightarrow> 0.6 * par_LM P | Some x \<Rightarrow> x)"
  "norm_state P ''WD0'' v = Some (case v of None \<Rightarrow> 0.6 * par_DM P | Some x \<Rightarrow> x)"
  "norm_state P ''S0'' v = Some (case v of None \<Rightarrow> 0.6 * par_SM P | Some x \<Rightarrow> x)"
  "norm_state P ''FR0'' v = Some (case v of None \<Rightarrow> 0.02 | Some x \<Rightarrow> x)"
  "norm_state P ''QS0'' v = Some (case v of None \<Rightarrow> 0.01 | Some x \<Rightarrow> x)"
  "norm_state P ''QI0'' v = Some (case v of None \<Rightarrow> 0.01 | Some x \<Rightarrow> x)"
  "norm_state P ''QG0'' v = Some (case v of None \<Rightarrow> 0.01 | Some x \<Rightarrow> x)"
  by (cases v; simp add: norm_state_def default_state_def)+

lemma xaj_steps_default:
  "xaj_steps P st sb ts (wu0, wl0, wd0) (s0, fr0) =
   xaj_steps P st sb ts
     (norm_state P ''WU0'' wu0, norm_state P ''WL0'' wl0, norm_state P ''WD0'' wd0)
     (norm_state P ''S0'' s0, norm_state P ''FR0'' fr0)
   \<or> ts = []"
proof (cases ts)
  case Nil
  then show ?thesis by simp
next
  case (Cons x xs)
  have g: "generation x (par_UM P) (par_LM P) (par_DM P) (par_C P) (par_B P) (par_IM P)
             wu0 wl0 wd0 =
           generation x (par_UM P) (par_LM P) (par_DM P) (par_C P) (par_B P) (par_IM P)
             (norm_state P ''WU0'' wu0) (norm_state P ''WL0'' wl0) (norm_state P ''WD0'' wd0)"
    unfolding norm_state_simps by (rule generation_default)
  have d: "divide_sources st sb pe r (par_SM P) (par_EX P) (par_KI P) (par_KG P) s0 fr0 =
           divide_sources st sb pe r (par_SM P) (par_EX P) (par_KI P) (par_KG P)
             (norm_state P ''S0'' s0) (norm_state P ''FR0'' fr0)" for pe r
    unfolding norm_state_simps by (rule divide_sources_default)
  show ?thesis unfolding Cons by (simp add: g d)
qed

lemma xaj_unfold:
  "xaj sc ts P s uh st sb =
     bindE (read_route sc P uh) (\<lambda>route.
     bindE (read_states s) (\<lambda>(w0, S0, (qs0, qi0, qg0)).
     bindE (xaj_steps P st sb ts w0 S0) (\<lambda>(outs, w, S).
       route_all P route (case qs0 of None \<Rightarrow> 0.01 | Some v \<Rightarrow> v)
         (case qi0 of None \<Rightarrow> 0.01 | Some v \<Rightarrow> v)
         (case qg0 of None \<Rightarrow> 0.01 | Some v \<Rightarrow> v) outs)))"
  unfolding xaj_def route_all_def by (simp add: Let_def)

lemma norm_state_case:
  "(case norm_state P ''QS0'' v of None \<Rightarrow> 0.01 | Some x \<Rightarrow> x)
     = (case v of None \<Rightarrow> 0.01 | Some x \<Rightarrow> x)"
  "(case norm_state P ''QI0'' v of None \<Rightarrow> 0.01 | Some x \<Rightarrow> x)
     = (case v of None \<Rightarrow> 0.01 | Some x \<Rightarrow> x)"
  "(case norm_state P ''QG0'' v of None \<Rightarrow> 0.01 | Some x \<Rightarrow> x)
     = (case v of None \<Rightarrow> 0.01 | Some x \<Rightarrow> x)"
  by (simp_all add: norm_state_simps)

lemma xaj_steps_empty_route:
  "bindE (xaj_steps P st sb [] w0 S0) (\<lambda>(outs, w, S). route_all P route q1 q2 q3 outs)
     = Inl ValueError"
  by (simp add: route_all_def)

lemma xaj_fill_defaults:
  "xaj sc ts P (Some m) uh st sb = xaj sc ts P (Some (fill_defaults P m)) uh st sb"
proof -
  define K where "K = (\<lambda>route (a :: (real option \<times> real option \<times> real option)
        \<times> (real option \<times> real option) \<times> (real option \<times> real option \<times> real option)).
     case a of (w0, S0, (qs0, qi0, qg0)) \<Rightarrow>
       bindE (xaj_steps P st sb ts w0 S0) (\<lambda>(outs, w, S).
       route_all P route (case qs0 of None \<Rightarrow> 0.01 | Some v \<Rightarrow> v)
         (case qi0 of None \<Rightarrow> 0.01 | Some v \<Rightarrow> v)
         (case qg0 of None \<Rightarrow> 0.01 | Some v \<Rightarrow> v) outs))"
  have x: "xaj sc ts P s uh st sb =
             bindE (read_route sc P uh) (\<lambda>route. bindE (read_states s) (K route))" for s
    unfolding xaj_unfold K_def by simp
  have k: "K route ((norm_state P ''WU0'' wu0, norm_state P ''WL0'' wl0, norm_state P ''WD0'' wd0),
            (norm_state P ''S0'' s0, norm_state P ''FR0'' fr0),
            (norm_state P ''QS0'' qs0, norm_state P ''QI0'' qi0, norm_state P ''QG0'' qg0))
           = K route ((wu0, wl0, wd0), (s0, fr0), (qs0, qi0, qg0))"
    for route wu0 wl0 wd0 s0 fr0 qs0 qi0 qg0
  proof (cases "ts = []")
    case True
    then show ?thesis by (simp add: K_def xaj_steps_empty_route del: xaj_steps.simps)
  next
    case False
    then have "xaj_steps P st sb ts
       (norm_state P ''WU0'' wu0, norm_state P ''WL0'' wl0, norm_state P ''WD0'' wd0)
       (norm_state P ''S0'' s0, norm_state P ''FR0'' fr0)
       = xaj_steps P st sb ts (wu0, wl0, wd0) (s0, fr0)"
      using xaj_steps_default[of P st sb ts wu0 wl0 wd0 s0 fr0] by simp
    then show ?thesis by (simp only: K_def prod.case norm_state_case)
  qed
  have "bindE (read_states (Some (fill_defaults P m))) (K route)
        = bindE (read_states (Some m)) (K route)" for route
  proof (cases "read_states (Some m)")
    case (Inl e)
    then show ?thesis by (simp add: read_states_fill)
  next
    case (Inr a)
    obtain wu0 wl0 wd0 s0 fr0 qs0 qi0 qg0
      where a: "a = ((wu0, wl0, wd0), (s0, fr0), (qs0, qi0, qg0))"
      by (metis prod_cases3 surj_pair)
    show ?thesis unfolding read_states_fill Inr a by (simp add: k)
  qed
  then show ?thesis unfolding x by simp
qed

lemma read_states_error:
  assumes "read_states s = Inl e"
  shows "e = KeyError"
proof (cases s)
  case None
  then show ?thesis using assms by (simp add: read_states_def)
next
  case (Some m)
  have g: "get_state m j = Inl e' \<Longrightarrow> e' = KeyError" for j e'
    by (simp add: get_state_def split: option.splits)
  show ?thesis using assms unfolding Some read_states_def option.case
    by (auto simp: bindE_eq_Inl dest: g)
qed

lemma read_states_present:
  assumes "read_states (Some m) = Inr a" and "k \<in> set state_keys"
  shows "m k \<noteq> None"
proof -
  have g: "get_state m j = Inr v \<Longrightarrow> m j \<noteq> None" for j v
    by (simp add: get_state_def split: option.splits)
  show ?thesis using assms unfolding read_states_def option.case state_keys_def
    by (auto simp: bindE_eq_Inr dest: g)
qed

lemma read_states_missing:
  assumes "k \<in> set state_keys" "m k = None"
  shows "read_states (Some m) = Inl KeyError"
proof (cases "read_states (Some m)")
  case (Inl e)
  then show ?thesis using read_states_error by blast
next
  case (Inr a)
  then show ?thesis using read_states_present assms by blast
qed

text \<open>
  Claim C4, as stated, fails: the driver reads every key of a state dictionary that is
  given, so a dictionary without \<open>WU0\<close> ends the run with \<open>KeyError\<close> before the first
  timestep.
\<close>

theorem C4_state_defaults_counterexample:
  "xaj (\<lambda>t x. 0) [(10, 3), (0, 3), (30, 3)] example_params (Some states_without_WU0) None
     ''sources'' ''ShuiWenYuBao'' = Inl KeyError"
  by (simp add: xaj_def read_route_def example_params_def read_states_def get_state_def
        states_without_WU0_def)

text \<open>
  Claim C4, amended. The defaults are applied per value, not per key: a run with a state
  dictionary equals the run with the dictionary in which every key that holds \<open>None\<close>
  holds its documented default (\<open>0.6 * UM\<close>, \<open>0.6 * LM\<close>, \<open>0.6 * DM\<close>, \<open>0.6 * SM\<close>,
  \<open>0.02\<close>, \<open>0.01\<close>, \<open>0.01\<close>, \<open>0.01\<close>), and a run without a dictionary equals the run with
  the dictionary holding \<open>None\<close> at every key. A dictionary in which one of the eight
  keys is absent ends the run with \<open>KeyError\<close> (when the routing choice can be read).
\<close>

theorem C4_state_defaults:
  "xaj sc ts P (Some m) uh st sb = xaj sc ts P (Some (fill_defaults P m)) uh st sb \<and>
   xaj sc ts P None uh st sb = xaj sc ts P (Some (\<lambda>k. Some None)) uh st sb \<and>
   ((\<exists>k\<in>set state_keys. m k = None) \<and> (\<exists>route. read_route sc P uh = Inr route) \<longrightarrow>
      xaj sc ts P (Some m) uh st sb = Inl KeyError)"
proof (intro conjI impI)
  show "xaj sc ts P (Some m) uh st sb = xaj sc ts P (Some (fill_defaults P m)) uh st sb"
    by (rule xaj_fill_defaults)
  have "read_states (Some (\<lambda>k. Some None)) = read_states None"
    by (simp add: read_states_def get_state_def)
  then show "xaj sc ts P None uh st sb = xaj sc ts P (Some (\<lambda>k. Some None)) uh st sb"
    by (simp add: xaj_def)
  assume "(\<exists>k\<in>set state_keys. m k = None) \<and> (\<exists>route. read_route sc P uh = Inr route)"
  then obtain route where "read_states (Some m) = Inl KeyError"
    "read_route sc P uh = Inr route"
    using read_states_missing by blast
  then show "xaj sc ts P (Some m) uh st sb = Inl KeyError" by (simp add: xaj_def)
qed

theorem C4_state_defaults_witness:
  "(''WU0'' \<in> set state_keys \<and> states_without_WU0 ''WU0'' = None) \<and>
   read_route (\<lambda>t x. 0) example_params None = Inr (LinearReservoir (1/2)) \<and>
   xaj (\<lambda>t x. 0) [(0, 0)] example_params (Some states_without_WU0) None
     ''sources5mm'' ''ShuiWenYuBao'' = Inl KeyError"
proof -
  have k: "''WU0'' \<in> set state_keys \<and> states_without_WU0 ''WU0'' = None"
    by (simp add: state_keys_def states_without_WU0_def)
  have r: "read_route (\<lambda>t x. 0) example_params None = Inr (LinearReservoir (1/2))"
    by (simp add: read_route_def example_params_def)
  have "xaj (\<lambda>t x. 0) [(0, 0)] example_params (Some states_without_WU0) None
          ''sources5mm'' ''ShuiWenYuBao'' = Inl KeyError"
    using C4_state_defaults[of "\<lambda>t x. 0" "[(0, 0)]" example_params states_without_WU0 None
            "''sources5mm''" "''ShuiWenYuBao''"] k r
    by blast
  then show ?thesis using k r by simp
qed

section \<open>Invariants of a run\<close>

















end
